theory Spec2Isabelle
  imports Main "HOL-Library.Word"
begin

unbundle bit_operations_syntax

section \<open>Data model of server\_transport\_tcp.c\<close>

text \<open>
  Machine types of the Windows build: \<open>DWORD\<close> and \<open>ULONG\<close> are unsigned 32-bit
  values, a \<open>LONG\<close> is a 32-bit two's complement value read with \<open>sint\<close>,
  \<open>SOCKET\<close> is \<open>UINT_PTR\<close> (the x86 build, 32 bits). A value of the C type
  \<open>int\<close> that comes from outside (a clock reading, the value a library call
  returns) is an integer within the range of \<open>int\<close>; where the source stores it in
  a \<open>DWORD\<close> or \<open>LONG\<close> variable, the model converts it with \<open>word_of_int\<close>
  at that place, so every comparison and addition made on the variable is the 32-bit
  one. A pointer is an address; address 0 is \<open>NULL\<close>.
\<close>

type_synonym BYTE = "8 word"
type_synonym DWORD = "32 word"
type_synonym ULONG = "32 word"
type_synonym LONG = "32 word"
type_synonym SOCKET = "32 word"
type_synonym addr = nat

text \<open>Constants of the platform headers (winerror.h, winsock2.h, OpenSSL's ssl.h).\<close>

definition ERROR_SUCCESS :: DWORD where "ERROR_SUCCESS = 0"
definition ERROR_NOT_ENOUGH_MEMORY :: DWORD where "ERROR_NOT_ENOUGH_MEMORY = 8"
definition ERROR_NOT_FOUND :: DWORD where "ERROR_NOT_FOUND = 1168"
definition WSAEWOULDBLOCK :: DWORD where "WSAEWOULDBLOCK = 10035"
definition SOCKET_ERROR :: int where "SOCKET_ERROR = -1"
definition INVALID_SOCKET :: SOCKET where "INVALID_SOCKET = -1"
definition AF_INET :: "16 word" where "AF_INET = 2"
definition AF_INET6 :: "16 word" where "AF_INET6 = 23"
definition SSL_ERROR_WANT_READ :: int where "SSL_ERROR_WANT_READ = 2"
definition SSL_ERROR_WANT_WRITE :: int where "SSL_ERROR_WANT_WRITE = 3"

text \<open>
  A socket address as \<open>getsockname\<close> and \<open>getpeername\<close> fill it in: the family,
  the port (\<open>sin_port\<close> and \<open>sin6_port\<close> lie at the same offset, right after
  the family) and the remaining address bytes.
\<close>

record sockaddr_storage =
  ss_family :: "16 word"
  sin_port :: "16 word"
  sin_rest :: "BYTE list"

text \<open>
  \<open>TcpTransportContext\<close>: the fields the source reads and writes. The field
  \<open>ctx\<close> of the C struct (the \<open>SSL_CTX\<close> handle) is named \<open>ctx_ssl\<close> here,
  since \<open>ctx\<close> is also the context pointer of \<open>Transport\<close>.
\<close>

record TcpTransportContext =
  fd :: SOCKET
  sock_desc :: sockaddr_storage
  sock_desc_size :: int
  bound :: bool
  meth :: addr
  ctx_ssl :: addr
  ssl :: addr

record TimeoutSettings =
  comms :: int
  retry_total :: DWORD
  retry_wait :: DWORD
  expiry_t :: int

text \<open>
  \<open>Transport\<close>: the type tag, the pointer to its context, and the timing fields.
  The field \<open>type\<close> is named \<open>type_tag\<close>, the field \<open>expiry\<close> of the
  timeouts \<open>expiry_t\<close>. The function table is left out: no
  operation modelled here calls through it.
\<close>

record Transport =
  type_tag :: DWORD
  url :: string
  ctx :: addr
  timeouts :: TimeoutSettings
  comms_last_packet :: int
  expiration_end :: int
  start_time :: int

text \<open>
  \<open>TlvHeader\<close> and \<open>Packet\<close>. The header fields \<open>length\<close> and \<open>type\<close> are
  named \<open>length_f\<close> and \<open>type_f\<close>; both hold the value as it lies in memory, that
  is, in network byte order. \<open>payload\<close> is the buffer the pointer refers to.
\<close>

record TlvHeader =
  length_f :: DWORD
  type_f :: DWORD

record Packet =
  header :: TlvHeader
  payload :: "BYTE list"
  payloadLength :: ULONG

text \<open>The memory holding the transport contexts, by address.\<close>

type_synonym memory = "addr \<rightharpoonup> TcpTransportContext"

section \<open>transport\_get\_socket\_tcp\<close>

text \<open>
  \<open>transport\<close> is \<open>None\<close> for the null pointer. The tag
  \<open>METERPRETER_TRANSPORT_SSL\<close> is declared in a header outside this file, so it
  is the parameter \<open>SSL_TAG\<close>. Reading \<open>ctx->fd\<close> through a pointer that
  holds no context has no defined result: the model returns \<open>None\<close> there.
\<close>

definition transport_get_socket_tcp ::
  "DWORD \<Rightarrow> memory \<Rightarrow> Transport option \<Rightarrow> SOCKET option" where
  "transport_get_socket_tcp SSL_TAG mem transport =
     (case transport of
        None \<Rightarrow> Some 0
      | Some t \<Rightarrow>
          if type_tag t = SSL_TAG
          then (case mem (ctx t) of None \<Rightarrow> None | Some c \<Rightarrow> Some (fd c))
          else Some 0)"

section \<open>transport\_reset\_tcp\<close>

text \<open>
  The function allocates a context with \<open>malloc\<close> and works on that block, not on
  \<open>transport->ctx\<close>. \<open>malloc\<close> is the parameter \<open>fresh\<close>: \<open>None\<close> when it
  returns \<open>NULL\<close> (the next line then reads through the null pointer, result
  \<open>None\<close>), otherwise the address of the new block, which no live context
  occupies, and the bytes it happens to hold, read as a context. The calls of
  \<open>closesocket\<close> are logged.
\<close>

record reset_state =
  mem_of :: memory
  closed_of :: "SOCKET list"

definition transport_reset_tcp ::
  "DWORD \<Rightarrow> (addr \<times> TcpTransportContext) option \<Rightarrow> reset_state \<Rightarrow> Transport option
     \<Rightarrow> reset_state option" where
  "transport_reset_tcp SSL_TAG fresh s transport =
     (case transport of
        None \<Rightarrow> Some s
      | Some t \<Rightarrow>
          if type_tag t = SSL_TAG
          then (case fresh of
                  None \<Rightarrow> None
                | Some (a, c) \<Rightarrow>
                    let closed' = (if fd c \<noteq> 0 then closed_of s @ [fd c] else closed_of s)
                    in Some \<lparr>mem_of = (mem_of s)(a \<mapsto> c\<lparr>fd := 0\<rparr>), closed_of = closed'\<rparr>)
          else Some s)"

section \<open>infer\_staged\_connection\_type\<close>

text \<open>
  What the operating system answers for a socket handle: \<open>accepting\<close> is the result
  of \<open>getsockopt(SO_ACCEPTCONN)\<close> (\<open>None\<close> for \<open>SOCKET_ERROR\<close>, otherwise the value
  stored in \<open>isListening\<close>), \<open>sockname\<close> and \<open>peername\<close> are the results of
  \<open>getsockname\<close> and \<open>getpeername\<close> (\<open>None\<close> for \<open>SOCKET_ERROR\<close>, otherwise the
  address and its size). The answers do not change while the prober runs.
\<close>

record sock_info =
  accepting :: "bool option"
  sockname :: "(sockaddr_storage \<times> int) option"
  peername :: "(sockaddr_storage \<times> int) option"

type_synonym socket_table = "SOCKET \<Rightarrow> sock_info"

text \<open>
  The loop \<open>for (int i = 1; i <= 16; ++i)\<close>. The result is the value of \<open>ctx->bound\<close>
  and of \<open>listenSocket\<close> when the loop is left. Every \<open>continue\<close> is the recursive
  call with \<open>i + 1\<close>, every \<open>break\<close> returns. The IPv4 branch compares the ports with
  \<open>==\<close>, the IPv6 branch with \<open>!=\<close>, as the source does.
\<close>

function scan_listeners ::
  "socket_table \<Rightarrow> TcpTransportContext \<Rightarrow> nat \<Rightarrow> SOCKET \<Rightarrow> bool \<times> SOCKET" where
  "scan_listeners os c i listenSocket0 =
     (if i \<le> 16 then
        (let listenSocket = fd c - word_of_nat (i * 4) in
         case accepting (os listenSocket) of
           None \<Rightarrow> scan_listeners os c (i + 1) listenSocket
         | Some isListening \<Rightarrow>
             if \<not> isListening then scan_listeners os c (i + 1) listenSocket
             else (case sockname (os listenSocket) of
                     None \<Rightarrow> scan_listeners os c (i + 1) listenSocket
                   | Some (listenStorage, listenStorageSize) \<Rightarrow>
                       if ss_family listenStorage \<noteq> ss_family (sock_desc c)
                       then scan_listeners os c (i + 1) listenSocket
                       else if ss_family listenStorage = AF_INET then
                         (if sin_port listenStorage = sin_port (sock_desc c)
                          then (True, listenSocket)
                          else scan_listeners os c (i + 1) listenSocket)
                       else if ss_family listenStorage = AF_INET6 then
                         (if sin_port listenStorage \<noteq> sin_port (sock_desc c)
                          then (True, listenSocket)
                          else scan_listeners os c (i + 1) listenSocket)
                       else scan_listeners os c (i + 1) listenSocket))
      else (bound c, listenSocket0))"
  by pat_completeness auto
termination
  by (relation "measure (\<lambda>(os, c, i, l). 17 - i)") auto

declare scan_listeners.simps [simp del]

text \<open>
  The whole prober: the updated context and the handles passed to \<open>closesocket\<close>.
  \<open>sizeof(ctx->sock_desc)\<close> is 128. A failing \<open>getsockname\<close> or \<open>getpeername\<close>
  leaves \<open>sock_desc\<close> as it was.
\<close>

definition store_name ::
  "(sockaddr_storage \<times> int) option \<Rightarrow> TcpTransportContext \<Rightarrow> TcpTransportContext" where
  "store_name answer c =
     (case answer of
        None \<Rightarrow> c\<lparr>sock_desc_size := 128\<rparr>
      | Some (a, n) \<Rightarrow> c\<lparr>sock_desc := a, sock_desc_size := n\<rparr>)"

definition infer_staged_connection_type ::
  "socket_table \<Rightarrow> TcpTransportContext \<Rightarrow> SOCKET \<Rightarrow> TcpTransportContext \<times> SOCKET list" where
  "infer_staged_connection_type os ctx0 sock =
     (let c1 = ctx0\<lparr>fd := sock, bound := False\<rparr>;
          c2 = store_name (sockname (os (fd c1))) c1;
          (b, listenSocket) = scan_listeners os c2 1 0;
          c3 = c2\<lparr>bound := b\<rparr>
      in if bound c3
         then (store_name (sockname (os listenSocket)) c3, [listenSocket])
         else (store_name (peername (os (fd c3))) c3, []))"

section \<open>The connection establisher\<close>

text \<open>
  What the establishment functions do to the outside: the calls of \<open>connect\<close>,
  \<open>Sleep\<close> (argument in milliseconds) and \<open>closesocket\<close>, in order.
\<close>

datatype event = Connect SOCKET | Sleep DWORD | CloseSocket SOCKET

subsection \<open>reverse\_tcp\_run\<close>

text \<open>
  One round of the \<open>do ... while\<close> loop, as the environment answers it: the value
  \<open>connect\<close> returns, the clock reading of the expiry test and the clock reading of
  the loop condition (the reading stored in \<open>retryStart\<close> is never used). Clock
  readings are values of the C type \<open>int\<close>. A list of rounds that ends before the loop
  does gives \<open>None\<close>: the function has not returned yet.

  \<open>result\<close> is a \<open>DWORD\<close>, so the value of \<open>connect\<close> and \<open>SOCKET_ERROR\<close> are
  compared as 32-bit unsigned values; the loop condition subtracts the two clock
  readings as \<open>DWORD\<close>s.
\<close>

record round =
  connect_result :: int
  t_expiry :: int
  t_loop :: int

fun reverse_tcp_loop ::
  "SOCKET \<Rightarrow> DWORD \<Rightarrow> DWORD \<Rightarrow> int \<Rightarrow> int \<Rightarrow> round list \<Rightarrow> (DWORD \<times> event list) option" where
  "reverse_tcp_loop reverseSocket retryTotal retryWait expiry start [] = None"
| "reverse_tcp_loop reverseSocket retryTotal retryWait expiry start (r # rs) =
     (let result = (word_of_int (connect_result r) :: DWORD) in
      if result \<noteq> word_of_int SOCKET_ERROR then Some (result, [Connect reverseSocket])
      else if t_expiry r \<ge> expiry then Some (result, [Connect reverseSocket])
      else if (word_of_int (t_loop r) - word_of_int start :: DWORD) < retryTotal
      then (case reverse_tcp_loop reverseSocket retryTotal retryWait expiry start rs of
              None \<Rightarrow> None
            | Some (res, ev) \<Rightarrow>
                Some (res, Connect reverseSocket # Sleep (retryWait * 1000) # ev))
      else Some (result, [Connect reverseSocket, Sleep (retryWait * 1000)]))"

definition reverse_tcp_run ::
  "SOCKET \<Rightarrow> DWORD \<Rightarrow> DWORD \<Rightarrow> int \<Rightarrow> int \<Rightarrow> round list \<Rightarrow> (DWORD \<times> event list) option" where
  "reverse_tcp_run reverseSocket retryTotal retryWait expiry start rounds =
     (case reverse_tcp_loop reverseSocket retryTotal retryWait expiry start rounds of
        None \<Rightarrow> None
      | Some (result, ev) \<Rightarrow>
          Some (result,
                if result = word_of_int SOCKET_ERROR then ev @ [CloseSocket reverseSocket]
                else ev))"

text \<open>
  A round after which the loop goes on: \<open>connect\<close> failed, the session has not expired
  and the elapsed time is below \<open>retryTotal\<close>.
\<close>

definition continues :: "DWORD \<Rightarrow> int \<Rightarrow> int \<Rightarrow> round \<Rightarrow> bool" where
  "continues retryTotal expiry start r =
     ((word_of_int (connect_result r) :: DWORD) = word_of_int SOCKET_ERROR
      \<and> t_expiry r < expiry
      \<and> (word_of_int (t_loop r) - word_of_int start :: DWORD) < retryTotal)"

definition retried :: "SOCKET \<Rightarrow> DWORD \<Rightarrow> round list \<Rightarrow> event list" where
  "retried s retryWait pre = concat (map (\<lambda>r. [Connect s, Sleep (retryWait * 1000)]) pre)"

subsection \<open>reverse\_tcp4\<close>

text \<open>
  The environment of \<open>reverse_tcp4\<close>: the values of \<open>WSAStartup\<close>,
  \<open>WSAGetLastError\<close> and \<open>socket\<close>, whether \<open>gethostbyname\<close> found the host (the
  source reads through its result unchecked, so a null result is \<open>None\<close> here), the
  clock reading stored in \<open>start\<close>, and the rounds of the retry loop. The last
  argument is what \<open>*socketBuffer\<close> held on entry; the second component of the result
  is what it holds on return.
\<close>

record reverse4_env =
  wsa_startup4 :: int
  wsa_error4 :: DWORD
  socket4 :: SOCKET
  resolved4 :: bool
  start4 :: int
  rounds4 :: "round list"

definition reverse_tcp4 ::
  "reverse4_env \<Rightarrow> DWORD \<Rightarrow> DWORD \<Rightarrow> int \<Rightarrow> SOCKET \<Rightarrow> (DWORD \<times> SOCKET \<times> event list) option" where
  "reverse_tcp4 env retryTotal retryWait expiry socketBuffer0 =
     (let socketBuffer = (0 :: SOCKET) in
      if wsa_startup4 env \<noteq> 0 then Some (wsa_error4 env, socketBuffer, [])
      else
        let socketHandle = socket4 env in
        if \<not> resolved4 env then None
        else (case reverse_tcp_run socketHandle retryTotal retryWait expiry (start4 env)
                     (rounds4 env) of
                None \<Rightarrow> None
              | Some (result, ev) \<Rightarrow>
                  Some (result,
                        if result = ERROR_SUCCESS then socketHandle else socketBuffer, ev)))"

subsection \<open>reverse\_tcp6\<close>

text \<open>
  The \<open>for\<close> loop over the resolved addresses: one \<open>connect\<close> per address, until one
  succeeds. The result says whether one did, the last value stored in \<open>result\<close>, and
  the events.
\<close>

fun connect_each ::
  "SOCKET \<Rightarrow> sockaddr_storage list \<Rightarrow> int list \<Rightarrow> DWORD \<Rightarrow> (bool \<times> DWORD \<times> event list) option" where
  "connect_each s [] rs result = Some (False, result, [])"
| "connect_each s (a # as) [] result = None"
| "connect_each s (a # as) (r # rs) result =
     (let result' = (word_of_int r :: DWORD) in
      if result' \<noteq> word_of_int SOCKET_ERROR then Some (True, result', [Connect s])
      else (case connect_each s as rs result' of
              None \<Rightarrow> None
            | Some (c, res, ev) \<Rightarrow> Some (c, res, Connect s # ev)))"

record round6 =
  connect_results6 :: "int list"
  t_expiry6 :: int
  t_loop6 :: int

fun reverse_tcp6_loop ::
  "SOCKET \<Rightarrow> sockaddr_storage list \<Rightarrow> DWORD \<Rightarrow> DWORD \<Rightarrow> int \<Rightarrow> int \<Rightarrow> DWORD \<Rightarrow> round6 list
     \<Rightarrow> (bool \<times> DWORD \<times> event list) option" where
  "reverse_tcp6_loop s addresses retryTotal retryWait expiry start result [] = None"
| "reverse_tcp6_loop s addresses retryTotal retryWait expiry start result (r # rs) =
     (case connect_each s addresses (connect_results6 r) result of
        None \<Rightarrow> None
      | Some (connected, result', ev) \<Rightarrow>
          if connected then Some (True, ERROR_SUCCESS, ev)
          else if t_expiry6 r \<ge> expiry then Some (False, result', ev)
          else if (word_of_int (t_loop6 r) - word_of_int start :: DWORD) < retryTotal
          then (case reverse_tcp6_loop s addresses retryTotal retryWait expiry start result' rs of
                  None \<Rightarrow> None
                | Some (c, res, ev') \<Rightarrow> Some (c, res, ev @ Sleep (retryWait * 1000) # ev'))
          else Some (False, result', ev @ [Sleep (retryWait * 1000)]))"

record reverse6_env =
  wsa_startup6 :: int
  wsa_error6 :: DWORD
  getaddrinfo6 :: int
  addresses6 :: "sockaddr_storage list"
  socket6 :: SOCKET
  start6 :: int
  rounds6 :: "round6 list"

definition reverse_tcp6 ::
  "reverse6_env \<Rightarrow> DWORD \<Rightarrow> DWORD \<Rightarrow> int \<Rightarrow> SOCKET \<Rightarrow> (DWORD \<times> SOCKET \<times> event list) option" where
  "reverse_tcp6 env retryTotal retryWait expiry socketBuffer0 =
     (let socketBuffer = (0 :: SOCKET) in
      if wsa_startup6 env \<noteq> 0 then Some (wsa_error6 env, socketBuffer, [])
      else if getaddrinfo6 env \<noteq> 0 then Some (wsa_error6 env, socketBuffer, [])
      else
        let socketHandle = socket6 env in
        if socketHandle = INVALID_SOCKET then Some (wsa_error6 env, socketBuffer, [])
        else (case reverse_tcp6_loop socketHandle (addresses6 env) retryTotal retryWait expiry
                     (start6 env) ERROR_SUCCESS (rounds6 env) of
                None \<Rightarrow> None
              | Some (connected, result, ev) \<Rightarrow>
                  if connected then Some (ERROR_SUCCESS, socketHandle, ev)
                  else Some (result, socketBuffer, ev @ [CloseSocket socketHandle])))"

subsection \<open>bind\_tcp\_run and bind\_tcp\<close>

text \<open>
  The environment of \<open>bind_tcp_run\<close>: the values of \<open>bind\<close>, \<open>listen\<close> and
  \<open>accept\<close>, and what \<open>WSAGetLastError\<close> gives after the call that failed. The
  environment of \<open>bind_tcp\<close> adds the values of \<open>WSAStartup\<close>, of the two calls of
  \<open>socket\<close> and of \<open>setsockopt\<close>. Both functions return; the results are the
  status, the contents of the caller's buffer on return, and the events.
\<close>

record bind_env =
  bind_result :: int
  listen_result :: int
  accept_result :: SOCKET
  wsa_error_bind :: DWORD

definition bind_tcp_run ::
  "bind_env \<Rightarrow> SOCKET \<Rightarrow> SOCKET \<Rightarrow> DWORD \<times> SOCKET \<times> event list" where
  "bind_tcp_run env listenSocket acceptSocketBuffer =
     (let (result, buffer) =
            (if bind_result env = SOCKET_ERROR then (wsa_error_bind env, acceptSocketBuffer)
             else if listen_result env = SOCKET_ERROR then (wsa_error_bind env, acceptSocketBuffer)
             else
               let acceptSocket = accept_result env in
               if acceptSocket = INVALID_SOCKET then (wsa_error_bind env, acceptSocketBuffer)
               else (ERROR_SUCCESS, acceptSocket))
      in (result, buffer, [CloseSocket listenSocket]))"

record bind_tcp_env =
  wsa_startup_b :: int
  wsa_error_b :: DWORD
  socket_v6_b :: SOCKET
  setsockopt_b :: int
  socket_v4_b :: SOCKET
  run_b :: bind_env

definition bind_tcp ::
  "bind_tcp_env \<Rightarrow> SOCKET \<Rightarrow> DWORD \<times> SOCKET \<times> event list" where
  "bind_tcp env socketBuffer0 =
     (let socketBuffer = (0 :: SOCKET) in
      if wsa_startup_b env \<noteq> 0 then (wsa_error_b env, socketBuffer, [])
      else
        let listenSocket6 = socket_v6_b env;
            (v4Fallback, ev) =
              (if listenSocket6 = INVALID_SOCKET then (True, [])
               else if setsockopt_b env = SOCKET_ERROR then (True, [CloseSocket listenSocket6])
               else (False, []));
            listenSocket = (if v4Fallback then socket_v4_b env else listenSocket6);
            (result, buffer, ev') = bind_tcp_run (run_b env) listenSocket socketBuffer
        in (result, buffer, ev @ ev'))"

section \<open>server\_negotiate\_ssl\<close>

text \<open>
  The environment: the value of \<open>SSL_set_fd\<close>, for each call of \<open>SSL_connect\<close> its
  value together with the value \<open>SSL_get_error\<close> gives for it, and the value of the one
  \<open>SSL_write\<close>. \<open>ret\<close> and \<open>res\<close> are \<open>DWORD\<close>s.
\<close>

record negotiate_env =
  set_fd_result :: int
  connect_replies :: "(int \<times> int) list"
  write_result :: int

text \<open>
  The inner \<open>do ... while (ret != 1)\<close>. A \<open>continue\<close> jumps to the loop condition,
  which holds there, so it is the recursive call. The result is \<open>success\<close> and \<open>ret\<close>.
\<close>

fun ssl_connect_loop :: "(int \<times> int) list \<Rightarrow> (bool \<times> DWORD) option" where
  "ssl_connect_loop [] = None"
| "ssl_connect_loop ((r, e) # rest) =
     (let ret = (word_of_int r :: DWORD) in
      if ret \<noteq> 1 then
        (let res = (word_of_int e :: DWORD) in
         if res = word_of_int SSL_ERROR_WANT_READ \<or> res = word_of_int SSL_ERROR_WANT_WRITE
         then ssl_connect_loop rest
         else Some (False, ret))
      else Some (True, ret))"

definition GET_request :: string where
  "GET_request = ''GET /123456789 HTTP/1.0'' @ [CHR 0x0D, CHR 0x0A, CHR 0x0D, CHR 0x0A]"

text \<open>
  The outer \<open>do ... while (0)\<close>: \<open>success\<close>, \<open>ret\<close> and the buffers passed to
  \<open>SSL_write\<close>.
\<close>

definition negotiate_body :: "negotiate_env \<Rightarrow> (bool \<times> DWORD \<times> string list) option" where
  "negotiate_body env =
     (if set_fd_result env = 0 then Some (False, 0, [])
      else (case ssl_connect_loop (connect_replies env) of
              None \<Rightarrow> None
            | Some (success, ret) \<Rightarrow>
                if success = False then Some (success, ret, [])
                else Some (success, word_of_int (write_result env), [take 27 GET_request])))"

definition server_negotiate_ssl :: "negotiate_env \<Rightarrow> (bool \<times> string list) option" where
  "server_negotiate_ssl env =
     (case negotiate_body env of
        None \<Rightarrow> None
      | Some (success, ret, written) \<Rightarrow>
          Some (if ret < 0 then False else success, written))"

text \<open>A handshake reply after which \<open>SSL_connect\<close> is called again.\<close>

definition wants_retry :: "int \<times> int \<Rightarrow> bool" where
  "wants_retry re =
     ((word_of_int (fst re) :: DWORD) \<noteq> 1
      \<and> ((word_of_int (snd re) :: DWORD) = word_of_int SSL_ERROR_WANT_READ
         \<or> (word_of_int (snd re) :: DWORD) = word_of_int SSL_ERROR_WANT_WRITE))"

section \<open>server\_dispatch\_tcp\<close>

text \<open>
  One pass through the loop body, as the environment answers it: whether the
  termination event is signalled, the value of \<open>server_socket_poll\<close>, and then, on
  readiness, the status of \<open>packet_receive_via_ssl\<close> with the packet it delivered, what
  \<open>command_handle\<close> returned and the clock reading stored in \<open>lastPacket\<close>; on a
  timeout, the clock reading stored in \<open>now\<close>. Only the answers the pass asks for
  are read.

  \<open>result\<close> is a \<open>LONG\<close>: \<open>result > 0\<close> is a signed comparison. The fields
  \<open>expiration_end\<close> and \<open>timeouts.comms\<close> and the clock readings are taken as
  values of the C type \<open>int\<close>, within its range. The difference
  \<open>now - lastPacket\<close> is the subtraction of two 32-bit \<open>int\<close>s: \<open>int_sub\<close> gives
  the two's complement result, which wraps around where the exact difference leaves the
  range of \<open>int\<close>.
\<close>

definition int_sub :: "int \<Rightarrow> int \<Rightarrow> int" where
  "int_sub a b = sint (word_of_int a - word_of_int b :: 32 word)"

record iteration =
  sigterm :: bool
  poll :: int
  receive_result :: DWORD
  received :: Packet
  handle_continue :: bool
  t_after :: int
  t_now :: int

datatype dispatch_event = CommandHandle Packet | SchedulerDestroy | JoinThreads

fun dispatch_loop ::
  "Transport \<Rightarrow> LONG \<Rightarrow> int \<Rightarrow> iteration list \<Rightarrow> (LONG \<times> dispatch_event list) option" where
  "dispatch_loop transport result lastPacket [] = None"
| "dispatch_loop transport result lastPacket (it # its) =
     (if sigterm it then Some (result, [])
      else
        let result = (word_of_int (poll it) :: LONG) in
        if sint result > 0 then
          (let result = receive_result it in
           if result \<noteq> ERROR_SUCCESS then Some (result, [])
           else
             let running = handle_continue it;
                 lastPacket = t_after it
             in if running
                then (case dispatch_loop transport result lastPacket its of
                        None \<Rightarrow> None
                      | Some (res, ev) \<Rightarrow> Some (res, CommandHandle (received it) # ev))
                else Some (result, [CommandHandle (received it)]))
        else if result = 0 then
          (let now = t_now it in
           if now > expiration_end transport
              \<or> int_sub now lastPacket > comms (timeouts transport)
           then Some (ERROR_SUCCESS, [])
           else dispatch_loop transport result lastPacket its)
        else Some (result, []))"

text \<open>
  The whole function: the status of \<open>scheduler_initialize\<close>, the clock reading stored
  in \<open>lastPacket\<close> before the loop, and the passes.
\<close>

definition server_dispatch_tcp ::
  "Transport \<Rightarrow> DWORD \<Rightarrow> int \<Rightarrow> iteration list \<Rightarrow> (DWORD \<times> dispatch_event list) option" where
  "server_dispatch_tcp transport sched t0 its =
     (let result = sched in
      if result \<noteq> ERROR_SUCCESS then Some (result, [])
      else (case dispatch_loop transport result t0 its of
              None \<Rightarrow> None
            | Some (res, ev) \<Rightarrow> Some (res, ev @ [SchedulerDestroy, JoinThreads])))"

text \<open>A pass in which the poll times out and the session goes on.\<close>

definition idle :: "Transport \<Rightarrow> int \<Rightarrow> iteration \<Rightarrow> bool" where
  "idle transport lastPacket it =
     (\<not> sigterm it \<and> poll it = 0
      \<and> \<not> (t_now it > expiration_end transport
           \<or> int_sub (t_now it) lastPacket > comms (timeouts transport)))"

section \<open>The packet codec\<close>

subsection \<open>Bytes in memory and on the wire\<close>

text \<open>
  The host is little-endian: \<open>dword_bytes\<close> gives the four bytes of a \<open>DWORD\<close> as they
  lie in memory, \<open>bytes_dword\<close> reads four bytes of memory as a \<open>DWORD\<close>. \<open>htonl\<close> and
  \<open>ntohl\<close> reverse the four bytes. \<open>sizeof(TlvHeader)\<close> is 8.
\<close>

definition dword_bytes :: "DWORD \<Rightarrow> BYTE list" where
  "dword_bytes x = [ucast x, ucast (drop_bit 8 x), ucast (drop_bit 16 x), ucast (drop_bit 24 x)]"

definition bytes_dword :: "BYTE list \<Rightarrow> DWORD" where
  "bytes_dword bs =
     (case bs of
        [b0, b1, b2, b3] \<Rightarrow>
          ucast b0 OR push_bit 8 (ucast b1) OR push_bit 16 (ucast b2) OR push_bit 24 (ucast b3)
      | _ \<Rightarrow> 0)"

definition htonl :: "DWORD \<Rightarrow> DWORD" where
  "htonl x = bytes_dword (rev (dword_bytes x))"

definition ntohl :: "DWORD \<Rightarrow> DWORD" where
  "ntohl x = bytes_dword (rev (dword_bytes x))"

text \<open>The bytes of a packet on the wire: the header as it lies in memory, then the payload.\<close>

definition header_bytes :: "TlvHeader \<Rightarrow> BYTE list" where
  "header_bytes h = dword_bytes (length_f h) @ dword_bytes (type_f h)"

definition frame :: "Packet \<Rightarrow> BYTE list" where
  "frame p = header_bytes (header p) @ payload p"

text \<open>The length field of a frame on the wire, converted to host order.\<close>

definition wire_length :: "BYTE list \<Rightarrow> DWORD" where
  "wire_length w = ntohl (bytes_dword (take 4 w))"

subsection \<open>Collaborators\<close>

text \<open>
  The cipher: \<open>crypto->handlers.encrypt\<close> and \<open>decrypt\<close> take the input buffer and its
  length and give a status, the output buffer and its length.
\<close>

record CryptoContext =
  encrypt :: "BYTE list \<Rightarrow> ULONG \<Rightarrow> DWORD \<times> BYTE list \<times> ULONG"
  decrypt :: "BYTE list \<Rightarrow> ULONG \<Rightarrow> DWORD \<times> BYTE list \<times> ULONG"

text \<open>
  The packet functions and constants the codec uses but this file does not define:
  \<open>packet_get_type\<close>, the two plaintext type constants, and \<open>packet_get_tlv_string\<close>
  and \<open>packet_add_tlv_string\<close>, both applied to \<open>TLV_TYPE_REQUEST_ID\<close> only (the
  first gives the request id, or \<open>None\<close> when its status is not \<open>ERROR_SUCCESS\<close>).
  They are parameters of the codec.
\<close>

record packet_api =
  packet_get_type :: "Packet \<Rightarrow> DWORD"
  PLAIN_REQUEST :: DWORD
  PLAIN_RESPONSE :: DWORD
  packet_get_tlv_string :: "Packet \<Rightarrow> BYTE list option"
  packet_add_tlv_string :: "Packet \<Rightarrow> BYTE list \<Rightarrow> Packet"

text \<open>
  The test both directions make before using the cipher: the remote has a cipher and
  the type of the packet passed to \<open>packet_get_type\<close> is neither plaintext type.
\<close>

definition cipher_for :: "packet_api \<Rightarrow> CryptoContext option \<Rightarrow> Packet \<Rightarrow> CryptoContext option" where
  "cipher_for api cipher p =
     (case cipher of
        None \<Rightarrow> None
      | Some crypto \<Rightarrow>
          if packet_get_type api p \<noteq> PLAIN_REQUEST api
             \<and> packet_get_type api p \<noteq> PLAIN_RESPONSE api
          then Some crypto else None)"

subsection \<open>packet\_receive\_via\_ssl\<close>

text \<open>
  What one call of \<open>SSL_read\<close> gives: bytes (never more than asked for: the model
  cuts the reply to the count requested), or a return value \<open>-k\<close> (\<open>k = 0\<close> is
  the closed connection) together with the thread's last error after the call. The
  result of \<open>SSL_read\<close> is \<open>bytesRead\<close>, the bytes stored and the last error.
\<close>

datatype ssl_reply = Data "BYTE list" | Failed nat DWORD

definition SSL_read :: "ssl_reply \<Rightarrow> nat \<Rightarrow> DWORD \<Rightarrow> int \<times> BYTE list \<times> DWORD" where
  "SSL_read reply num le =
     (case reply of
        Data bs \<Rightarrow> (int (length (take num bs)), take num bs, le)
      | Failed k err \<Rightarrow> (- int k, [], err))"

text \<open>
  The loop \<open>while (inHeader)\<close>: \<open>hdr\<close> holds the \<open>headerBytes\<close> bytes read so far.
  The result is the bytes read, the thread's last error and the replies left.
\<close>

fun read_header ::
  "BYTE list \<Rightarrow> DWORD \<Rightarrow> ssl_reply list \<Rightarrow> (BYTE list \<times> DWORD \<times> ssl_reply list) option" where
  "read_header hdr le [] = None"
| "read_header hdr le (reply # rest) =
     (case SSL_read reply (8 - length hdr) le of
        (bytesRead, got, le') \<Rightarrow>
          if bytesRead \<le> 0 then Some (hdr, ERROR_NOT_FOUND, rest)
          else if length (hdr @ got) \<noteq> 8 then read_header (hdr @ got) le' rest
          else Some (hdr @ got, le', rest))"

text \<open>
  The loop \<open>while (payloadBytesLeft > 0)\<close>: \<open>buf\<close> holds the bytes stored in the
  payload buffer so far. A failed read with last error \<open>WSAEWOULDBLOCK\<close> is tried again.
\<close>

fun read_payload ::
  "ULONG \<Rightarrow> BYTE list \<Rightarrow> DWORD \<Rightarrow> ssl_reply list
     \<Rightarrow> (ULONG \<times> BYTE list \<times> DWORD \<times> ssl_reply list) option" where
  "read_payload payloadBytesLeft buf le [] =
     (if payloadBytesLeft > 0 then None else Some (payloadBytesLeft, buf, le, []))"
| "read_payload payloadBytesLeft buf le (reply # rest) =
     (if payloadBytesLeft > 0 then
        (case SSL_read reply (unat payloadBytesLeft) le of
           (bytesRead, got, le') \<Rightarrow>
             if bytesRead \<le> 0 then
               (if le' = WSAEWOULDBLOCK then read_payload payloadBytesLeft buf le' rest
                else Some (payloadBytesLeft, buf, ERROR_NOT_FOUND, rest))
             else read_payload (payloadBytesLeft - word_of_int bytesRead) (buf @ got) le' rest)
      else Some (payloadBytesLeft, buf, le, reply # rest))"

text \<open>
  The environment of a receive: the replies of \<open>SSL_read\<close>, whether the two calls of
  \<open>malloc\<close> succeed, and the thread's last error on entry. The result: the status
  returned, the packet stored in \<open>*packet\<close> (if any), and the arguments of every call
  of \<open>decrypt\<close>.
\<close>

record receive_env =
  replies :: "ssl_reply list"
  payload_malloc :: bool
  packet_malloc :: bool
  entry_error :: DWORD

record receive_result =
  res_r :: DWORD
  packet_r :: "Packet option"
  decrypted_r :: "(BYTE list \<times> ULONG) list"

definition failed_with :: "DWORD \<Rightarrow> receive_result" where
  "failed_with e = \<lparr>res_r = e, packet_r = None, decrypted_r = []\<rparr>"

definition zero_packet :: Packet where
  "zero_packet = \<lparr>header = \<lparr>length_f = 0, type_f = 0\<rparr>, payload = [], payloadLength = 0\<rparr>"

definition packet_receive_via_ssl ::
  "packet_api \<Rightarrow> CryptoContext option \<Rightarrow> receive_env \<Rightarrow> receive_result option" where
  "packet_receive_via_ssl api cipher env =
     (case read_header [] (entry_error env) (replies env) of
        None \<Rightarrow> None
      | Some (hdr, le, rest) \<Rightarrow>
          if length hdr \<noteq> 8 then Some (failed_with le)
          else
            let hdr_in = \<lparr>length_f = bytes_dword (take 4 hdr), type_f = bytes_dword (drop 4 hdr)\<rparr>;
                payloadLength0 = ntohl (length_f hdr_in) - 8
            in if \<not> payload_malloc env then Some (failed_with ERROR_NOT_ENOUGH_MEMORY)
               else (case read_payload payloadLength0 [] le rest of
                       None \<Rightarrow> None
                     | Some (payloadBytesLeft, payload0, le', rest') \<Rightarrow>
                         if payloadBytesLeft \<noteq> 0 then Some (failed_with le')
                         else if \<not> packet_malloc env then Some (failed_with ERROR_NOT_ENOUGH_MEMORY)
                         else
                           let localPacket = zero_packet in
                           (case cipher_for api cipher localPacket of
                              Some crypto \<Rightarrow>
                                (case decrypt crypto payload0 payloadLength0 of
                                   (res, payload1, payloadLength1) \<Rightarrow>
                                     if res \<noteq> ERROR_SUCCESS
                                     then Some \<lparr>res_r = res, packet_r = None,
                                                decrypted_r = [(payload0, payloadLength0)]\<rparr>
                                     else Some \<lparr>res_r = ERROR_SUCCESS,
                                                packet_r = Some (localPacket\<lparr>header := hdr_in,
                                                  payload := payload1,
                                                  payloadLength := payloadLength1\<rparr>),
                                                decrypted_r = [(payload0, payloadLength0)]\<rparr>)
                            | None \<Rightarrow>
                                Some \<lparr>res_r = ERROR_SUCCESS,
                                      packet_r = Some (localPacket\<lparr>header := hdr_in,
                                        payload := payload0, payloadLength := payloadLength0\<rparr>),
                                      decrypted_r = []\<rparr>)))"

subsection \<open>packet\_transmit\_via\_ssl\<close>

text \<open>
  The request id the transmitter makes up: 31 characters \<open>(rand() % 0x5e) + 0x21\<close>;
  \<open>rnd i\<close> is the value of the \<open>i\<close>-th call of \<open>rand\<close>.
\<close>

definition make_rid :: "(nat \<Rightarrow> nat) \<Rightarrow> BYTE list" where
  "make_rid rnd = map (\<lambda>index. of_nat (rnd index mod 0x5e + 0x21)) [0..<31]"

text \<open>The packet after the first step: a request id is added when none is found.\<close>

definition with_request_id :: "packet_api \<Rightarrow> (nat \<Rightarrow> nat) \<Rightarrow> Packet \<Rightarrow> Packet" where
  "with_request_id api rnd packet =
     (case packet_get_tlv_string api packet of
        Some requestId \<Rightarrow> packet
      | None \<Rightarrow> packet_add_tlv_string api packet (make_rid rnd))"

text \<open>
  The packet as it is when the writing starts: with a cipher and a type that is not
  plaintext the payload is the encrypted one and \<open>header.length\<close> is set to
  \<open>htonl(payloadLength + sizeof(TlvHeader))\<close>; a failing \<open>encrypt\<close> gives its status
  (\<open>Inl\<close>).
\<close>

definition outgoing ::
  "packet_api \<Rightarrow> CryptoContext option \<Rightarrow> (nat \<Rightarrow> nat) \<Rightarrow> Packet \<Rightarrow> DWORD + Packet" where
  "outgoing api cipher rnd packet0 =
     (let packet = with_request_id api rnd packet0 in
      case cipher_for api cipher packet of
        Some crypto \<Rightarrow>
          (case encrypt crypto (payload packet) (payloadLength packet) of
             (res, payload1, payloadLength1) \<Rightarrow>
               if res \<noteq> ERROR_SUCCESS then Inl res
               else Inr (packet\<lparr>payload := payload1, payloadLength := payloadLength1,
                                header := (header packet)\<lparr>length_f := htonl (payloadLength1 + 8)\<rparr>\<rparr>))
      | None \<Rightarrow> Inr packet)"

text \<open>
  The two writing loops. \<open>ws\<close> holds the values the coming calls of \<open>SSL_write\<close>
  return; a positive value \<open>w\<close> puts the first \<open>w\<close> bytes of the buffer passed on the
  wire. \<open>res\<close> and \<open>idx\<close> are \<open>DWORD\<close>s, so each value returned is converted to 32
  bits unsigned before it is tested and added. The result: \<open>res\<close> and \<open>idx\<close> after
  the loop, the bytes put on the wire, each call as the count requested and the value
  returned, and the values left.
\<close>

fun write_header ::
  "BYTE list \<Rightarrow> DWORD \<Rightarrow> DWORD \<Rightarrow> int list
     \<Rightarrow> (DWORD \<times> DWORD \<times> BYTE list \<times> (nat \<times> int) list \<times> int list) option" where
  "write_header hdr idx res [] = (if idx < 8 then None else Some (res, idx, [], [], []))"
| "write_header hdr idx res (w # ws) =
     (if idx < 8 then
        (let num = 8 - unat idx;
             res' = (word_of_int w :: DWORD);
             sent = take (nat w) (take num (drop (unat idx) hdr))
         in if res' \<le> 0 then Some (res', idx, sent, [(num, w)], ws)
            else (case write_header hdr (idx + res') res' ws of
                    None \<Rightarrow> None
                  | Some (r, i, out, calls, ws') \<Rightarrow> Some (r, i, sent @ out, (num, w) # calls, ws')))
      else Some (res, idx, [], [], w # ws))"

fun write_payload ::
  "BYTE list \<Rightarrow> ULONG \<Rightarrow> DWORD \<Rightarrow> DWORD \<Rightarrow> int list
     \<Rightarrow> (DWORD \<times> DWORD \<times> BYTE list \<times> (nat \<times> int) list \<times> int list) option" where
  "write_payload buf len idx res [] = (if idx < len then None else Some (res, idx, [], [], []))"
| "write_payload buf len idx res (w # ws) =
     (if idx < len then
        (let num = unat (len - idx);
             res' = (word_of_int w :: DWORD);
             sent = take (nat w) (take num (drop (unat idx) buf))
         in if res' < 0 then Some (res', idx, sent, [(num, w)], ws)
            else (case write_payload buf len (idx + res') res' ws of
                    None \<Rightarrow> None
                  | Some (r, i, out, calls, ws') \<Rightarrow> Some (r, i, sent @ out, (num, w) # calls, ws')))
      else Some (res, idx, [], [], w # ws))"

text \<open>
  A script of values of \<open>SSL_write\<close> under which a writing loop that has \<open>n\<close> bytes
  left gets all of them written: every value the loop asks for is there, is positive
  and is no larger than the count still left. The result is what remains of the script
  once the \<open>n\<close> bytes are written.
\<close>

fun written_by :: "nat \<Rightarrow> int list \<Rightarrow> int list option" where
  "written_by n [] = (if n = 0 then Some [] else None)"
| "written_by n (w # ws) =
     (if n = 0 then Some (w # ws)
      else if 0 < w \<and> w \<le> int n then written_by (n - nat w) ws
      else None)"

text \<open>
  The environment of a transmit: the values of \<open>rand\<close>, whether a completion routine
  was passed, the values the calls of \<open>SSL_write\<close> return, and the thread's last error
  on entry. The result: the status returned, the bytes put on the wire, the calls of
  \<open>SSL_write\<close>, and the request id under which the completion routine was registered.
\<close>

record transmit_env =
  rand :: "nat \<Rightarrow> nat"
  completion :: bool
  write_results :: "int list"
  entry_error_t :: DWORD

record transmit_result =
  res_t :: DWORD
  wire_t :: "BYTE list"
  calls_t :: "(nat \<times> int) list"
  registered_t :: "BYTE list option"

definition packet_transmit_via_ssl ::
  "packet_api \<Rightarrow> CryptoContext option \<Rightarrow> transmit_env \<Rightarrow> Packet \<Rightarrow> transmit_result option" where
  "packet_transmit_via_ssl api cipher env packet0 =
     (let packet1 = with_request_id api (rand env) packet0;
          registered = (if completion env then packet_get_tlv_string api packet1 else None)
      in case outgoing api cipher (rand env) packet0 of
           Inl res \<Rightarrow> Some \<lparr>res_t = res, wire_t = [], calls_t = [], registered_t = registered\<rparr>
         | Inr packet \<Rightarrow>
             (case write_header (header_bytes (header packet)) 0 ERROR_SUCCESS (write_results env) of
                None \<Rightarrow> None
              | Some (res, idx, out1, calls1, ws1) \<Rightarrow>
                  if res < 0
                  then Some \<lparr>res_t = entry_error_t env, wire_t = out1, calls_t = calls1,
                             registered_t = registered\<rparr>
                  else (case write_payload (payload packet) (payloadLength packet) 0 res ws1 of
                          None \<Rightarrow> None
                        | Some (res', idx', out2, calls2, ws2) \<Rightarrow>
                            if res' < 0
                            then Some \<lparr>res_t = entry_error_t env, wire_t = out1 @ out2,
                                       calls_t = calls1 @ calls2, registered_t = registered\<rparr>
                            else Some \<lparr>res_t = ERROR_SUCCESS, wire_t = out1 @ out2,
                                       calls_t = calls1 @ calls2, registered_t = registered\<rparr>)))"

subsection \<open>The packet functions of the common library\<close>

text \<open>
  The codec is stated for any \<open>packet_api\<close>. For concrete packets the functions of
  the repository's common library are needed; they are not part of this file. The spec
  says that the header's type is a 32-bit value in network order, that the header's
  length is the total length of the packet, header included, and that the transmitter
  attaches a generated request id to a packet that lacks a request-id TLV. The payload
  is taken to be a sequence of TLV records, each a length word (counting its own 8
  header bytes) and a type word in network order followed by the value.
\<close>

text \<open>
  Modelled from the spec: the lookup behind \<open>packet_get_tlv_string\<close> (not in this
  file). It walks the records of the payload and gives the value of the first record
  of type \<open>ty\<close>; a payload too short for a record header, or a record whose length
  field is below 8 or beyond the end of the payload, holds no further record.
\<close>

function find_tlv :: "DWORD \<Rightarrow> BYTE list \<Rightarrow> BYTE list option" where
  "find_tlv ty buf =
     (if length buf < 8 then None
      else if unat (wire_length buf) < 8 \<or> length buf < unat (wire_length buf) then None
      else if wire_length (drop 4 buf) = ty
      then Some (take (unat (wire_length buf) - 8) (drop 8 buf))
      else find_tlv ty (drop (unat (wire_length buf)) buf))"
  by pat_completeness auto
termination
  by (relation "measure (\<lambda>(ty, buf). length buf)") auto

declare find_tlv.simps [simp del]

text \<open>
  Modelled from the spec: \<open>packet_add_tlv_string\<close> (not in this file). The string
  with its closing NUL is appended to the payload as one record, and the size of the
  record is added to \<open>payloadLength\<close> and to the header's length, so the header's
  length stays the total length of the packet.
\<close>

definition add_tlv :: "DWORD \<Rightarrow> Packet \<Rightarrow> BYTE list \<Rightarrow> Packet" where
  "add_tlv ty packet str =
     (let val = str @ [0];
          realLength = (8 + of_nat (length val) :: DWORD)
      in packet\<lparr>payload := payload packet @ dword_bytes (htonl realLength)
                              @ dword_bytes (htonl ty) @ val,
                payloadLength := payloadLength packet + realLength,
                header := (header packet)\<lparr>length_f :=
                            htonl (ntohl (length_f (header packet)) + realLength)\<rparr>\<rparr>)"

text \<open>
  Modelled from the spec: the constant \<open>TLV_TYPE_REQUEST_ID\<close> (declared outside this
  file), the string TLV number 2 of the common library.
\<close>

definition TLV_TYPE_REQUEST_ID :: DWORD where
  "TLV_TYPE_REQUEST_ID = 0x10002"

text \<open>
  Modelled from the spec: the packet functions and constants of the common library
  that the codec calls (none of them in this file). \<open>packet_get_type\<close> gives the
  header's type in host order; \<open>PACKET_TLV_TYPE_PLAIN_REQUEST\<close> and
  \<open>PACKET_TLV_TYPE_PLAIN_RESPONSE\<close> are 10 and 11, the numbers of the library's
  header; the two TLV functions are the ones above, at \<open>TLV_TYPE_REQUEST_ID\<close>.
\<close>

definition core_api :: packet_api where
  "core_api =
     \<lparr>packet_get_type = (\<lambda>p. ntohl (type_f (header p))),
      PLAIN_REQUEST = 10,
      PLAIN_RESPONSE = 11,
      packet_get_tlv_string = (\<lambda>p. find_tlv TLV_TYPE_REQUEST_ID (payload p)),
      packet_add_tlv_string = add_tlv TLV_TYPE_REQUEST_ID\<rparr>"

section \<open>Concrete inputs\<close>

text \<open>
  A context with stream handle 1284 whose captured address is 10.0.0.5:4444 (IPv4), and
  an SSL-over-TCP transport (tag 0) whose context lives at address 64.
\<close>

definition peer_v4 :: sockaddr_storage where
  "peer_v4 = \<lparr>ss_family = AF_INET, sin_port = 0x5C11, sin_rest = [10, 0, 0, 5]\<rparr>"

definition live_ctx :: TcpTransportContext where
  "live_ctx = \<lparr>fd = 1284, sock_desc = peer_v4, sock_desc_size = 16, bound = False,
                meth = 0, ctx_ssl = 0, ssl = 0\<rparr>"

definition tcp_timeouts :: TimeoutSettings where
  "tcp_timeouts = \<lparr>comms = 10, retry_total = 5, retry_wait = 1, expiry_t = 60\<rparr>"

definition ssl_transport :: Transport where
  "ssl_transport = \<lparr>type_tag = 0, url = ''tcp://10.0.0.5:4444'', ctx = 64,
                     timeouts = tcp_timeouts, comms_last_packet = 1000,
                     expiration_end = 1060, start_time = 1000\<rparr>"

definition live_mem :: memory where
  "live_mem = [64 \<mapsto> live_ctx]"

text \<open>
  An inherited IPv6 socket 1284 with local port 4444, connected to a peer; the handle
  1280 = 1284 - 4 is an IPv6 socket accepting connections on \<open>listen_port\<close>; no other
  handle is a socket.
\<close>

definition local_v6 :: sockaddr_storage where
  "local_v6 = \<lparr>ss_family = AF_INET6, sin_port = 0x5C11, sin_rest = [1]\<rparr>"

definition peer_v6 :: sockaddr_storage where
  "peer_v6 = \<lparr>ss_family = AF_INET6, sin_port = 0x901F, sin_rest = [2]\<rparr>"

definition listen_v6 :: "16 word \<Rightarrow> sockaddr_storage" where
  "listen_v6 p = \<lparr>ss_family = AF_INET6, sin_port = p, sin_rest = [0]\<rparr>"

definition staged_v6 :: "16 word \<Rightarrow> socket_table" where
  "staged_v6 listen_port h =
     (if h = 1284 then \<lparr>accepting = Some False, sockname = Some (local_v6, 28),
                          peername = Some (peer_v6, 28)\<rparr>
      else if h = 1280 then \<lparr>accepting = Some True, sockname = Some (listen_v6 listen_port, 28),
                               peername = None\<rparr>
      else \<lparr>accepting = None, sockname = None, peername = None\<rparr>)"

text \<open>
  The same for IPv4: the inherited socket 1284 has local port 4444, the handle 1280
  listens on \<open>listen_port\<close>.
\<close>

definition staged_v4 :: "16 word \<Rightarrow> socket_table" where
  "staged_v4 listen_port h =
     (if h = 1284 then \<lparr>accepting = Some False,
                          sockname = Some (peer_v4\<lparr>sin_rest := [10, 0, 0, 9]\<rparr>, 16),
                          peername = Some (peer_v4, 16)\<rparr>
      else if h = 1280 then \<lparr>accepting = Some True,
                               sockname = Some (\<lparr>ss_family = AF_INET, sin_port = listen_port,
                                                 sin_rest = [0, 0, 0, 0]\<rparr>, 16),
                               peername = None\<rparr>
      else \<lparr>accepting = None, sockname = None, peername = None\<rparr>)"

definition blank_ctx :: TcpTransportContext where
  "blank_ctx = \<lparr>fd = 0, sock_desc = \<lparr>ss_family = 0, sin_port = 0, sin_rest = []\<rparr>,
                 sock_desc_size = 0, bound = False, meth = 0, ctx_ssl = 0, ssl = 0\<rparr>"

text \<open>
  Rounds of the retry loop: a failed \<open>connect\<close> with the two clock readings that
  follow it, and a successful one.
\<close>

definition failing :: "int \<Rightarrow> int \<Rightarrow> round" where
  "failing te tc = \<lparr>connect_result = -1, t_expiry = te, t_loop = tc\<rparr>"

definition connected :: round where
  "connected = \<lparr>connect_result = 0, t_expiry = 0, t_loop = 0\<rparr>"

text \<open>
  Environments in which establishment fails: a reverse IPv4 connect that is refused
  once the session has expired, a reverse IPv6 connect refused on both resolved addresses
  at expiry, and a bind whose \<open>accept\<close> fails with error 10004 on the dual-stack
  socket 1300.
\<close>

definition refused4 :: reverse4_env where
  "refused4 = \<lparr>wsa_startup4 = 0, wsa_error4 = 0, socket4 = 1284, resolved4 = True,
                start4 = 1000, rounds4 = [failing 1060 1061]\<rparr>"

definition refused6 :: reverse6_env where
  "refused6 = \<lparr>wsa_startup6 = 0, wsa_error6 = 0, getaddrinfo6 = 0,
                addresses6 = [local_v6, peer_v6], socket6 = 1288, start6 = 1000,
                rounds6 = [\<lparr>connect_results6 = [-1, -1], t_expiry6 = 1060, t_loop6 = 1061\<rparr>]\<rparr>"

definition accept_fails :: bind_tcp_env where
  "accept_fails = \<lparr>wsa_startup_b = 0, wsa_error_b = 0, socket_v6_b = 1300, setsockopt_b = 0,
                    socket_v4_b = 1304,
                    run_b = \<lparr>bind_result = 0, listen_result = 0, accept_result = INVALID_SOCKET,
                             wsa_error_bind = 10004\<rparr>\<rparr>"

text \<open>A pass of the dispatch loop in which the poll times out at clock reading \<open>t\<close>.\<close>

definition timeout_at :: "int \<Rightarrow> iteration" where
  "timeout_at t = \<lparr>sigterm = False, poll = 0, receive_result = 0,
                    received = \<lparr>header = \<lparr>length_f = 0, type_f = 0\<rparr>, payload = [],
                                payloadLength = 0\<rparr>,
                    handle_continue = True, t_after = t, t_now = t\<rparr>"

text \<open>
  A negotiation in which \<open>SSL_connect\<close> asks twice to be called again (want-read, then
  want-write), then succeeds, and the \<open>SSL_write\<close> that follows returns -1.
\<close>

definition write_fails :: negotiate_env where
  "write_fails = \<lparr>set_fd_result = 1, connect_replies = [(-1, 2), (-1, 3)] @ (1, 0) # [],
                   write_result = -1\<rparr>"

text \<open>
  A cipher for the examples: it flips bits of every byte with \<open>XOR 0x55\<close> and adds
  one trailing tag byte, which \<open>decrypt\<close> removes again; so the encrypted payload is
  one byte longer than the plain one.
\<close>

definition tag_cipher :: CryptoContext where
  "tag_cipher =
     \<lparr>encrypt = (\<lambda>buf n. (ERROR_SUCCESS, map (\<lambda>b. b XOR 0x55) buf @ [0xAA], n + 1)),
      decrypt = (\<lambda>buf n. (ERROR_SUCCESS, map (\<lambda>b. b XOR 0x55) (butlast buf), n - 1))\<rparr>"

text \<open>
  A frame arriving in pieces: the header \<open>00 00 00 0C 00 00 00 ty\<close> in two reads, then
  the payload \<open>ping\<close> in two reads with a would-block failure in between.
\<close>

definition ping_reads :: "BYTE \<Rightarrow> receive_env" where
  "ping_reads ty = \<lparr>replies = [Data [0, 0, 0], Data [12, 0, 0, 0, ty], Data [0x70],
                                Failed 1 WSAEWOULDBLOCK, Data [0x69, 0x6E, 0x67]],
                     payload_malloc = True, packet_malloc = True, entry_error = 5\<rparr>"

definition ping_packet :: "DWORD \<Rightarrow> Packet" where
  "ping_packet ty = \<lparr>header = \<lparr>length_f = 0x0C000000, type_f = ty\<rparr>,
                      payload = [0x70, 0x69, 0x6E, 0x67], payloadLength = 4\<rparr>"

text \<open>
  The same packet about to be sent: \<open>ping\<close> has the plaintext-request type 10,
  \<open>ask\<close> the request type 0. Neither holds a request-id TLV. \<open>rid_tlv\<close> is the
  record that gets attached when every call of \<open>rand\<close> returns 0: length 40, type
  \<open>0x10002\<close>, 31 characters \<open>!\<close> and the closing NUL.
\<close>

definition ping :: Packet where
  "ping = ping_packet 0x0A000000"

definition ask :: Packet where
  "ask = ping_packet 0"

definition rid_tlv :: "BYTE list" where
  "rid_tlv = [0, 0, 0, 40, 0, 1, 0, 2] @ replicate 31 0x21 @ [0]"

definition with_id :: "Packet \<Rightarrow> Packet" where
  "with_id p = \<lparr>header = \<lparr>length_f = 0x34000000, type_f = type_f (header p)\<rparr>,
                payload = payload p @ rid_tlv, payloadLength = 44\<rparr>"

definition ask_encrypted :: Packet where
  "ask_encrypted = \<lparr>header = \<lparr>length_f = 0x35000000, type_f = 0\<rparr>,
                     payload = map (\<lambda>b. b XOR 0x55) (payload (with_id ask)) @ [0xAA],
                     payloadLength = 45\<rparr>"

text \<open>A plaintext-request packet whose payload is a request-id record and nothing else.\<close>

definition id_only :: Packet where
  "id_only = \<lparr>header = \<lparr>length_f = 0x30000000, type_f = 0x0A000000\<rparr>,
               payload = rid_tlv, payloadLength = 40\<rparr>"

definition send_env :: "int list \<Rightarrow> transmit_env" where
  "send_env ws = \<lparr>rand = (\<lambda>i. 0), completion = False, write_results = ws, entry_error_t = 0\<rparr>"

section \<open>Theorems\<close>

text \<open>
  C9. \<open>get_socket\<close> returns 0 for the null transport and for a transport whose type
  tag is not the SSL-over-TCP tag; for a transport with that tag whose context pointer
  holds a context, it returns that context's stream handle.
\<close>

theorem get_socket_tcp_cases:
  "transport_get_socket_tcp SSL_TAG mem None = Some 0
   \<and> (type_tag t \<noteq> SSL_TAG \<longrightarrow> transport_get_socket_tcp SSL_TAG mem (Some t) = Some 0)
   \<and> (type_tag t = SSL_TAG \<and> mem (ctx t) = Some c
        \<longrightarrow> transport_get_socket_tcp SSL_TAG mem (Some t) = Some (fd c))"
  by (simp add: transport_get_socket_tcp_def)

theorem get_socket_tcp_cases_witness:
  "transport_get_socket_tcp 0 live_mem None = Some 0
   \<and> transport_get_socket_tcp 0 live_mem (Some (ssl_transport\<lparr>type_tag := 1\<rparr>)) = Some 0
   \<and> transport_get_socket_tcp 0 live_mem (Some ssl_transport) = Some 1284"
  using get_socket_tcp_cases [of 0 live_mem "ssl_transport\<lparr>type_tag := 1\<rparr>" live_ctx]
    get_socket_tcp_cases [of 0 live_mem ssl_transport live_ctx]
  by (simp add: ssl_transport_def live_mem_def live_ctx_def)

text \<open>
  C3. At an SSL-type transport whose context holds the stream handle 1284, reset leaves
  the transport's context as it was, handle included: the handle set to 0 is the one of
  the block the function allocated itself (address 96 here, found holding the handle
  777, which is the socket that gets closed).
\<close>

theorem transport_reset_tcp_keeps_live_handle:
  "transport_reset_tcp 0 (Some (96, live_ctx\<lparr>fd := 777\<rparr>))
       \<lparr>mem_of = live_mem, closed_of = []\<rparr> (Some ssl_transport)
     = Some \<lparr>mem_of = live_mem(96 \<mapsto> live_ctx\<lparr>fd := 0\<rparr>), closed_of = [777]\<rparr>
   \<and> (live_mem(96 \<mapsto> live_ctx\<lparr>fd := 0\<rparr>)) (ctx ssl_transport) = Some live_ctx
   \<and> fd live_ctx = 1284"
  by (simp add: transport_reset_tcp_def ssl_transport_def live_mem_def live_ctx_def)

lemma transport_reset_tcp_frame:
  assumes "transport_reset_tcp SSL_TAG (Some (a, c)) s (Some t) = Some s'"
    and "a \<noteq> ctx t"
  shows "mem_of s' (ctx t) = mem_of s (ctx t)"
  using assms by (auto simp: transport_reset_tcp_def Let_def split: if_splits)

text \<open>
  C4. An inherited IPv6 socket (handle 1284, local port 4444) with an IPv6 listener at
  handle 1280. When the listener's port differs from the inherited socket's local port,
  the prober sets \<open>bound\<close>, stores the listener's address and closes the listener;
  when the listener is on the same port 4444, \<open>bound\<close> stays false and the peer
  address is stored. For IPv6 the port test is the negation of the one made for IPv4.
\<close>

theorem infer_staged_v6_port_test_inverted:
  "infer_staged_connection_type (staged_v6 0xB315) blank_ctx 1284
     = (blank_ctx\<lparr>fd := 1284, sock_desc := listen_v6 0xB315, sock_desc_size := 28,
                   bound := True\<rparr>, [1280])
   \<and> sin_port (listen_v6 0xB315) \<noteq> sin_port local_v6
   \<and> infer_staged_connection_type (staged_v6 0x5C11) blank_ctx 1284
     = (blank_ctx\<lparr>fd := 1284, sock_desc := peer_v6, sock_desc_size := 28,
                   bound := False\<rparr>, [])
   \<and> sin_port (listen_v6 0x5C11) = sin_port local_v6"
  by code_simp

text \<open>
  The IPv4 branch, for comparison: a listener on the same port 4444 makes the prober set
  \<open>bound\<close>, store the listener's address and close it; a listener on another port
  does not.
\<close>

lemma infer_staged_v4_port_test:
  "infer_staged_connection_type (staged_v4 0x5C11) blank_ctx 1284
     = (blank_ctx\<lparr>fd := 1284,
                   sock_desc := \<lparr>ss_family = AF_INET, sin_port = 0x5C11,
                                  sin_rest = [0, 0, 0, 0]\<rparr>,
                   sock_desc_size := 16, bound := True\<rparr>, [1280])
   \<and> infer_staged_connection_type (staged_v4 0xB315) blank_ctx 1284
     = (blank_ctx\<lparr>fd := 1284, sock_desc := peer_v4, sock_desc_size := 16,
                   bound := False\<rparr>, [])"
  by code_simp

text \<open>
  The retry loop over a prefix of rounds that all go on is the loop over the rest, after
  one \<open>connect\<close> and one \<open>Sleep\<close> per round of the prefix.
\<close>

lemma reverse_tcp_loop_prefix:
  assumes "\<forall>x\<in>set pre. continues retryTotal expiry start x"
  shows "reverse_tcp_loop s retryTotal retryWait expiry start (pre @ rest) =
     (case reverse_tcp_loop s retryTotal retryWait expiry start rest of
        None \<Rightarrow> None
      | Some (res, ev) \<Rightarrow> Some (res, retried s retryWait pre @ ev))"
  using assms
proof (induction pre)
  case Nil
  then show ?case by (simp add: retried_def split: option.split)
next
  case (Cons a pre)
  then have a: "continues retryTotal expiry start a"
    and rest: "\<forall>x\<in>set pre. continues retryTotal expiry start x" by simp_all
  from a show ?case
    by (simp add: Cons.IH [OF rest] continues_def retried_def split: option.split)
qed

text \<open>
  C6. Let the rounds before \<open>r\<close> all fail without reaching the expiry time or the retry
  budget. Then the loop has made one \<open>connect\<close> and one \<open>Sleep(retryWait * 1000)\<close> in
  each of them, and in round \<open>r\<close>:
  \<^item> if \<open>connect\<close> returns 0, the function returns \<open>ERROR_SUCCESS\<close> at once: no sleep,
    no further attempt, the socket stays open;
  \<^item> if \<open>connect\<close> fails and the clock has reached \<open>expiry\<close>, it stops without
    sleeping, closes the socket and returns \<open>SOCKET_ERROR\<close>;
  \<^item> if \<open>connect\<close> fails before \<open>expiry\<close> and, after the sleep, the time elapsed since
    \<open>start\<close> has reached \<open>retryTotal\<close>, it stops, closes the socket and returns
    \<open>SOCKET_ERROR\<close>.
  The rounds after \<open>r\<close> are never looked at.
\<close>

theorem reverse_tcp_run_retry:
  assumes "\<forall>x\<in>set pre. continues retryTotal expiry start x"
  shows "(connect_result r = 0 \<longrightarrow>
            reverse_tcp_run s retryTotal retryWait expiry start (pre @ r # post)
              = Some (ERROR_SUCCESS, retried s retryWait pre @ [Connect s]))
       \<and> ((word_of_int (connect_result r) :: DWORD) = word_of_int SOCKET_ERROR
            \<and> expiry \<le> t_expiry r \<longrightarrow>
            reverse_tcp_run s retryTotal retryWait expiry start (pre @ r # post)
              = Some (word_of_int SOCKET_ERROR,
                      retried s retryWait pre @ [Connect s, CloseSocket s]))
       \<and> ((word_of_int (connect_result r) :: DWORD) = word_of_int SOCKET_ERROR
            \<and> t_expiry r < expiry
            \<and> retryTotal \<le> (word_of_int (t_loop r) - word_of_int start :: DWORD) \<longrightarrow>
            reverse_tcp_run s retryTotal retryWait expiry start (pre @ r # post)
              = Some (word_of_int SOCKET_ERROR,
                      retried s retryWait pre
                        @ [Connect s, Sleep (retryWait * 1000), CloseSocket s]))"
proof (intro conjI impI)
  assume "connect_result r = 0"
  then show "reverse_tcp_run s retryTotal retryWait expiry start (pre @ r # post)
      = Some (ERROR_SUCCESS, retried s retryWait pre @ [Connect s])"
    by (simp add: reverse_tcp_run_def reverse_tcp_loop_prefix [OF assms] SOCKET_ERROR_def
        ERROR_SUCCESS_def)
next
  assume "(word_of_int (connect_result r) :: DWORD) = word_of_int SOCKET_ERROR
      \<and> expiry \<le> t_expiry r"
  then show "reverse_tcp_run s retryTotal retryWait expiry start (pre @ r # post)
      = Some (word_of_int SOCKET_ERROR, retried s retryWait pre @ [Connect s, CloseSocket s])"
    by (simp add: reverse_tcp_run_def reverse_tcp_loop_prefix [OF assms])
next
  assume h: "(word_of_int (connect_result r) :: DWORD) = word_of_int SOCKET_ERROR
      \<and> t_expiry r < expiry
      \<and> retryTotal \<le> (word_of_int (t_loop r) - word_of_int start :: DWORD)"
  then have "\<not> (word_of_int (t_loop r) - word_of_int start :: DWORD) < retryTotal"
    by (simp add: not_less)
  with h show "reverse_tcp_run s retryTotal retryWait expiry start (pre @ r # post)
      = Some (word_of_int SOCKET_ERROR,
              retried s retryWait pre @ [Connect s, Sleep (retryWait * 1000), CloseSocket s])"
    by (simp add: reverse_tcp_run_def reverse_tcp_loop_prefix [OF assms])
qed

text \<open>
  With \<open>retryTotal = 5\<close>, \<open>retryWait = 1\<close>, \<open>expiry = 1060\<close> and \<open>start = 1000\<close>: two
  failed rounds and then a success on the third attempt; two failed rounds and then a
  failure at time 1060 (expired); two failed rounds and then a failure after which the
  elapsed time is 5 seconds (budget used up).
\<close>

theorem reverse_tcp_run_retry_witness:
  "reverse_tcp_run 1284 5 1 1060 1000
       ([failing 1000 1001, failing 1002 1003] @ connected # [failing 1004 1005])
     = Some (ERROR_SUCCESS,
             [Connect 1284, Sleep 1000, Connect 1284, Sleep 1000, Connect 1284])
   \<and> reverse_tcp_run 1284 5 1 1060 1000
       ([failing 1000 1001, failing 1002 1003] @ failing 1060 1061 # [connected])
     = Some (word_of_int SOCKET_ERROR,
             [Connect 1284, Sleep 1000, Connect 1284, Sleep 1000, Connect 1284,
              CloseSocket 1284])
   \<and> reverse_tcp_run 1284 5 1 1060 1000
       ([failing 1000 1001, failing 1002 1003] @ failing 1004 1005 # [connected])
     = Some (word_of_int SOCKET_ERROR,
             [Connect 1284, Sleep 1000, Connect 1284, Sleep 1000, Connect 1284, Sleep 1000,
              CloseSocket 1284])"
  using
    reverse_tcp_run_retry [of "[failing 1000 1001, failing 1002 1003]" 5 1060 1000
      connected 1284 1 "[failing 1004 1005]"]
    reverse_tcp_run_retry [of "[failing 1000 1001, failing 1002 1003]" 5 1060 1000
      "failing 1060 1061" 1284 1 "[connected]"]
    reverse_tcp_run_retry [of "[failing 1000 1001, failing 1002 1003]" 5 1060 1000
      "failing 1004 1005" 1284 1 "[connected]"]
  by (simp add: continues_def failing_def connected_def SOCKET_ERROR_def retried_def)

text \<open>
  C10. Whatever the caller's buffer held on entry, and whatever the environment
  answers: when \<open>reverse_tcp4\<close>, \<open>reverse_tcp6\<close> or \<open>bind_tcp\<close> returns a status other
  than \<open>ERROR_SUCCESS\<close>, the buffer holds 0 on return.
\<close>

theorem establish_failure_leaves_zero:
  "(reverse_tcp4 env4 retryTotal retryWait expiry buf0 = Some (res4, buf4, ev4)
      \<and> res4 \<noteq> ERROR_SUCCESS \<longrightarrow> buf4 = 0)
   \<and> (reverse_tcp6 env6 retryTotal retryWait expiry buf0 = Some (res6, buf6, ev6)
      \<and> res6 \<noteq> ERROR_SUCCESS \<longrightarrow> buf6 = 0)
   \<and> (bind_tcp envb buf0 = (resb, bufb, evb) \<and> resb \<noteq> ERROR_SUCCESS \<longrightarrow> bufb = 0)"
  by (auto simp: reverse_tcp4_def reverse_tcp6_def bind_tcp_def bind_tcp_run_def Let_def
      split: if_splits option.splits prod.splits)

theorem establish_failure_leaves_zero_witness:
  "reverse_tcp4 refused4 5 1 1060 777
     = Some (word_of_int SOCKET_ERROR, 0, [Connect 1284, CloseSocket 1284])
   \<and> reverse_tcp6 refused6 5 1 1060 777
     = Some (word_of_int SOCKET_ERROR, 0, [Connect 1288, Connect 1288, CloseSocket 1288])
   \<and> bind_tcp accept_fails 777 = (10004, 0, [CloseSocket 1300])"
  using establish_failure_leaves_zero [of refused4 5 1 1060 777 "word_of_int SOCKET_ERROR" 0
      "[Connect 1284, CloseSocket 1284]" refused6 "word_of_int SOCKET_ERROR" 0
      "[Connect 1288, Connect 1288, CloseSocket 1288]" accept_fails 10004 0 "[CloseSocket 1300]"]
  by (simp add: reverse_tcp4_def reverse_tcp6_def bind_tcp_def bind_tcp_run_def
      reverse_tcp_run_def refused4_def refused6_def accept_fails_def failing_def
      SOCKET_ERROR_def ERROR_SUCCESS_def INVALID_SOCKET_def)

lemma ssl_connect_loop_prefix:
  "\<forall>x\<in>set pre. wants_retry x \<Longrightarrow> ssl_connect_loop (pre @ rest) = ssl_connect_loop rest"
  by (induction pre) (auto simp: wants_retry_def)

text \<open>
  C5. Let \<open>SSL_set_fd\<close> succeed and the handshake complete: \<open>SSL_connect\<close> returns 1
  after any number of want-read or want-write rounds. Then, whatever the \<open>SSL_write\<close>
  returns, the negotiation returns \<open>TRUE\<close>, and \<open>SSL_write\<close> has been called exactly
  once, with the 27 bytes of the GET request. So no failure of the write makes the
  negotiation fail; in particular it fails in no case where the write returned zero or
  more. (\<open>ret\<close> is unsigned, so the closing test \<open>ret < 0\<close> holds for no value.)
\<close>

theorem negotiate_after_handshake:
  assumes "set_fd_result env \<noteq> 0"
    and "connect_replies env = pre @ (1, e) # post"
    and "\<forall>x\<in>set pre. wants_retry x"
  shows "server_negotiate_ssl env = Some (True, [GET_request]) \<and> length GET_request = 27"
  using assms
  by (simp add: server_negotiate_ssl_def negotiate_body_def ssl_connect_loop_prefix
      GET_request_def)

theorem negotiate_after_handshake_witness:
  "server_negotiate_ssl write_fails = Some (True, [GET_request])
   \<and> length GET_request = 27 \<and> write_result write_fails = -1"
  using negotiate_after_handshake [of write_fails "[(-1, 2), (-1, 3)]" 0 "[]"]
  by (simp add: write_fails_def wants_retry_def SSL_ERROR_WANT_READ_def
      SSL_ERROR_WANT_WRITE_def)

text \<open>
  The 32-bit subtraction is the exact one where the exact difference is in the range of
  \<open>int\<close>; outside it wraps: \<open>1 - (-2147483648)\<close> comes out negative.
\<close>

lemma int_sub_exact:
  assumes "- (2 ^ 31) \<le> a - b" and "a - b < 2 ^ 31"
  shows "int_sub a b = a - b"
proof -
  have "int_sub a b = sint (word_of_int (a - b) :: 32 word)"
    by (simp add: int_sub_def)
  also have "\<dots> = signed_take_bit (LENGTH(32) - 1) (a - b)"
    by (rule sint_sbintrunc')
  also have "\<dots> = a - b"
    using assms by (intro signed_take_bit_int_eq_self) simp_all
  finally show ?thesis .
qed

lemma int_sub_wraps: "int_sub 1 (- 2147483648) = - 2147483647"
  by (simp add: int_sub_def)

text \<open>
  Passes in which the poll times out without ending the session leave the loop where it
  was, except that \<open>result\<close> is 0 after the first of them.
\<close>

lemma dispatch_loop_idle:
  "\<forall>x\<in>set pre. idle transport lastPacket x \<Longrightarrow>
   dispatch_loop transport result lastPacket (pre @ rest) =
     (if pre = [] then dispatch_loop transport result lastPacket rest
      else dispatch_loop transport 0 lastPacket rest)"
  by (induction pre arbitrary: result) (auto simp: idle_def)

text \<open>
  C7. At any point of the loop (any \<open>result\<close>, any \<open>lastPacket\<close>), after any number of
  passes in which the poll timed out without ending the session: a pass in which the
  termination event is not signalled, the poll returns 0 and
  \<open>now > expiration_end\<close> or \<open>now - lastPacket > timeouts.comms\<close> holds makes the loop
  exit with \<open>ERROR_SUCCESS\<close>, with no call of \<open>command_handle\<close> from that point on;
  the passes after it are never run. When this happens with no packet received since
  the loop started, \<open>server_dispatch_tcp\<close> returns \<open>ERROR_SUCCESS\<close> and its only calls
  are \<open>scheduler_destroy\<close> and \<open>command_join_threads\<close>. The difference
  \<open>now - lastPacket\<close> is the 32-bit one the code computes (\<open>int_sub\<close>); by
  \<open>int_sub_exact\<close> it is the exact difference whenever that lies in the range of
  \<open>int\<close>.
\<close>

theorem dispatch_timeout_exit:
  assumes "\<forall>x\<in>set pre. idle transport lastPacket x"
    and "\<not> sigterm it" and "poll it = 0"
    and "t_now it > expiration_end transport
         \<or> int_sub (t_now it) lastPacket > comms (timeouts transport)"
  shows "dispatch_loop transport result lastPacket (pre @ it # post) = Some (ERROR_SUCCESS, [])
     \<and> server_dispatch_tcp transport ERROR_SUCCESS lastPacket (pre @ it # post)
         = Some (ERROR_SUCCESS, [SchedulerDestroy, JoinThreads])"
  using assms(2-4)
  by (auto simp: server_dispatch_tcp_def dispatch_loop_idle [OF assms(1)])

text \<open>
  With \<open>timeouts.comms = 10\<close> and the loop entered at time 1000: polls that time out at
  1000, 1005 and 1010 keep the session; the one at 1011, eleven seconds after the last
  packet time, ends it with success and without a call of \<open>command_handle\<close>.
\<close>

theorem dispatch_timeout_exit_witness:
  "comms (timeouts ssl_transport) = 10
   \<and> int_sub 1011 1000 = 11
   \<and> server_dispatch_tcp ssl_transport ERROR_SUCCESS 1000
       ([timeout_at 1000, timeout_at 1005, timeout_at 1010] @ timeout_at 1011 # [])
     = Some (ERROR_SUCCESS, [SchedulerDestroy, JoinThreads])"
  using dispatch_timeout_exit [of "[timeout_at 1000, timeout_at 1005, timeout_at 1010]"
      ssl_transport 1000 "timeout_at 1011" ERROR_SUCCESS "[]"]
  by (simp add: idle_def timeout_at_def ssl_transport_def tcp_timeouts_def int_sub_def)

text \<open>Reading back the bytes of a \<open>DWORD\<close>, and the bytes of \<open>htonl\<close>.\<close>

lemma bytes_dword_bytes: "bytes_dword (dword_bytes x) = x"
proof (rule bit_word_eqI)
  fix n assume "n < LENGTH(32)"
  then have n: "n < 32" by simp
  consider "n < 8" | "8 \<le> n" "n < 16" | "16 \<le> n" "n < 24" | "24 \<le> n" by linarith
  then show "bit (bytes_dword (dword_bytes x)) n = bit x n"
  proof cases
    case 1 then show ?thesis using n by (auto simp add: bytes_dword_def dword_bytes_def bit_simps)
  next
    case 2 then show ?thesis using n by (auto simp add: bytes_dword_def dword_bytes_def bit_simps)
  next
    case 3 then show ?thesis using n by (auto simp add: bytes_dword_def dword_bytes_def bit_simps)
  next
    case 4 then show ?thesis using n by (auto simp add: bytes_dword_def dword_bytes_def bit_simps)
  qed
qed

lemma dword_bytes_dword: "dword_bytes (bytes_dword [b0, b1, b2, b3]) = [b0, b1, b2, b3]"
proof -
  have 0: "ucast (bytes_dword [b0, b1, b2, b3]) = b0"
    by (rule bit_word_eqI) (auto simp add: bytes_dword_def bit_simps dest: bit_imp_le_length)
  have 1: "ucast (drop_bit 8 (bytes_dword [b0, b1, b2, b3])) = b1"
    by (rule bit_word_eqI) (auto simp add: bytes_dword_def bit_simps dest: bit_imp_le_length)
  have 2: "ucast (drop_bit 16 (bytes_dword [b0, b1, b2, b3])) = b2"
    by (rule bit_word_eqI) (auto simp add: bytes_dword_def bit_simps dest: bit_imp_le_length)
  have 3: "ucast (drop_bit 24 (bytes_dword [b0, b1, b2, b3])) = b3"
    by (rule bit_word_eqI) (auto simp add: bytes_dword_def bit_simps dest: bit_imp_le_length)
  show ?thesis unfolding dword_bytes_def using 0 1 2 3 by simp
qed

lemma dword_bytes_htonl:
  "dword_bytes (htonl x)
     = [ucast (drop_bit 24 x), ucast (drop_bit 16 x), ucast (drop_bit 8 x), ucast x]"
proof -
  have r: "rev (dword_bytes x)
      = [ucast (drop_bit 24 x), ucast (drop_bit 16 x), ucast (drop_bit 8 x), ucast x]"
    by (simp add: dword_bytes_def)
  show ?thesis unfolding htonl_def r by (rule dword_bytes_dword)
qed

lemma ntohl_htonl: "ntohl (htonl x) = x"
proof -
  have "rev (dword_bytes (htonl x)) = dword_bytes x"
    by (simp add: dword_bytes_htonl) (simp add: dword_bytes_def)
  then show ?thesis by (simp add: ntohl_def bytes_dword_bytes)
qed

lemma length_dword_bytes: "length (dword_bytes x) = 4"
  by (simp add: dword_bytes_def)

text \<open>
  The reading loops: the header loop ends with 8 bytes or with the last error set to
  \<open>ERROR_NOT_FOUND\<close>; the payload loop ends with nothing left or with that error,
  and the bytes left and the bytes stored always add up to the payload length.
\<close>

lemma read_header_result:
  "read_header hdr le rs = Some (h, le', rest) \<Longrightarrow> length h = 8 \<or> le' = ERROR_NOT_FOUND"
proof (induction hdr le rs rule: read_header.induct)
  case (1 hdr le)
  then show ?case by simp
next
  case (2 hdr le reply rest')
  then show ?case
    by (auto simp: SSL_read_def split: ssl_reply.splits if_splits prod.splits)
qed

lemma unat_minus_read:
  fixes left :: ULONG
  assumes "k \<le> unat left"
  shows "unat (left - word_of_nat k) = unat left - k"
proof -
  have "unat (word_of_nat k :: ULONG) = k" using assms by (rule le_unat_uoi)
  moreover from this assms have "(word_of_nat k :: ULONG) \<le> left"
    by (simp add: word_le_nat_alt)
  ultimately show ?thesis by (simp add: unat_sub)
qed

lemma read_payload_result:
  "read_payload left buf le rs = Some (left', buf', le', rest) \<Longrightarrow>
   (left' = 0 \<or> le' = ERROR_NOT_FOUND) \<and> unat left' + length buf' = unat left + length buf"
proof (induction left buf le rs rule: read_payload.induct)
  case (1 payloadBytesLeft buf le)
  then show ?case by (auto simp: word_greater_zero_iff split: if_splits)
next
  case (2 payloadBytesLeft buf le reply rest')
  show ?case
  proof (cases "payloadBytesLeft > 0")
    case False
    with 2(3) show ?thesis by (auto simp: word_greater_zero_iff)
  next
    case True
    obtain bytesRead got le1 where sr: "SSL_read reply (unat payloadBytesLeft) le = (bytesRead, got, le1)"
      by (cases "SSL_read reply (unat payloadBytesLeft) le") auto
    have got: "bytesRead > 0 \<Longrightarrow> bytesRead = int (length got) \<and> length got \<le> unat payloadBytesLeft"
      using sr by (auto simp: SSL_read_def split: ssl_reply.splits)
    show ?thesis
    proof (cases "bytesRead \<le> 0")
      case nonpos: True
      show ?thesis
      proof (cases "le1 = WSAEWOULDBLOCK")
        case True
        from 2(3) \<open>payloadBytesLeft > 0\<close> sr nonpos True
        have "read_payload payloadBytesLeft buf le1 rest' = Some (left', buf', le', rest)"
          by simp
        from 2(1)[OF \<open>payloadBytesLeft > 0\<close> sr[symmetric] refl nonpos True this]
        show ?thesis .
      next
        case False
        with 2(3) \<open>payloadBytesLeft > 0\<close> sr nonpos show ?thesis by auto
      qed
    next
      case pos: False
      then have g: "bytesRead = int (length got)" "length got \<le> unat payloadBytesLeft"
        using got by auto
      from 2(3) \<open>payloadBytesLeft > 0\<close> sr pos
      have "read_payload (payloadBytesLeft - word_of_int bytesRead) (buf @ got) le1 rest'
              = Some (left', buf', le', rest)" by simp
      from 2(2)[OF \<open>payloadBytesLeft > 0\<close> sr[symmetric] refl pos this]
      show ?thesis using g unat_minus_read [OF g(2)] by simp
    qed
  qed
qed

text \<open>
  C8 (amended). For every receive that returns \<open>ERROR_SUCCESS\<close>, the caller gets a
  packet whose header is the 8 bytes read from the wire, and
  \<^item> if \<open>decrypt\<close> was not called, its \<open>payloadLength\<close> is the header's length
    field in host order minus 8 (in 32-bit arithmetic) and its payload buffer holds
    exactly that many bytes;
  \<^item> if \<open>decrypt\<close> was called, it was called once, on exactly that many received
    bytes, and the packet's payload and \<open>payloadLength\<close> are the buffer and the
    length \<open>decrypt\<close> gave back.
\<close>

theorem receive_success_payload:
  assumes "packet_receive_via_ssl api cipher env = Some r" and "res_r r = ERROR_SUCCESS"
  shows "\<exists>pkt hdr le rest.
           packet_r r = Some pkt
         \<and> read_header [] (entry_error env) (replies env) = Some (hdr, le, rest)
         \<and> length hdr = 8
         \<and> header pkt = \<lparr>length_f = bytes_dword (take 4 hdr), type_f = bytes_dword (drop 4 hdr)\<rparr>
         \<and> (case decrypted_r r of
               [] \<Rightarrow> payloadLength pkt = ntohl (length_f (header pkt)) - 8
                     \<and> length (payload pkt) = unat (payloadLength pkt)
             | (buf, n) # others \<Rightarrow>
                   n = ntohl (length_f (header pkt)) - 8 \<and> length buf = unat n
                 \<and> (\<exists>crypto. cipher = Some crypto
                       \<and> decrypt crypto buf n = (ERROR_SUCCESS, payload pkt, payloadLength pkt)))"
proof -
  from assms(1) obtain hdr le rest where
    rh: "read_header [] (entry_error env) (replies env) = Some (hdr, le, rest)"
    by (auto simp: packet_receive_via_ssl_def split: option.splits)
  have nf: "ERROR_NOT_FOUND \<noteq> ERROR_SUCCESS" "ERROR_NOT_ENOUGH_MEMORY \<noteq> ERROR_SUCCESS"
    by (simp_all add: ERROR_NOT_FOUND_def ERROR_SUCCESS_def ERROR_NOT_ENOUGH_MEMORY_def)
  have len: "length hdr = 8"
  proof (rule ccontr)
    assume "length hdr \<noteq> 8"
    with rh assms read_header_result [OF rh] nf show False
      by (auto simp: packet_receive_via_ssl_def failed_with_def)
  qed
  define hdr_in where "hdr_in = \<lparr>length_f = bytes_dword (take 4 hdr), type_f = bytes_dword (drop 4 hdr)\<rparr>"
  define n0 where "n0 = ntohl (length_f hdr_in) - 8"
  from assms rh len nf have pm: "payload_malloc env"
    by (auto simp: packet_receive_via_ssl_def failed_with_def Let_def split: if_splits)
  with assms(1) rh len obtain left buf le2 rest2 where
    rp: "read_payload n0 [] le rest = Some (left, buf, le2, rest2)"
    by (auto simp: packet_receive_via_ssl_def Let_def n0_def hdr_in_def split: option.splits)
  from read_payload_result [OF rp] have inv: "left = 0 \<or> le2 = ERROR_NOT_FOUND"
    and sz: "unat left + length buf = unat n0" by simp_all
  have l0: "left = 0"
  proof (rule ccontr)
    assume "left \<noteq> 0"
    with inv assms rh len pm rp nf show False
      by (auto simp: packet_receive_via_ssl_def failed_with_def Let_def n0_def hdr_in_def)
  qed
  with sz have bl: "length buf = unat n0" by simp
  from assms rh len pm rp l0 nf have km: "packet_malloc env"
    by (auto simp: packet_receive_via_ssl_def failed_with_def Let_def n0_def hdr_in_def
        split: if_splits)
  show ?thesis
  proof (cases "cipher_for api cipher zero_packet")
    case None
    with assms(1) rh len pm rp l0 km
    have "r = \<lparr>res_r = ERROR_SUCCESS,
               packet_r = Some (zero_packet\<lparr>header := hdr_in, payload := buf, payloadLength := n0\<rparr>),
               decrypted_r = []\<rparr>"
      by (simp add: packet_receive_via_ssl_def Let_def n0_def hdr_in_def)
    with rh len bl show ?thesis by (simp add: n0_def hdr_in_def)
  next
    case (Some crypto)
    then have c: "cipher = Some crypto"
      by (auto simp: cipher_for_def split: option.splits if_splits)
    obtain res p1 n1 where d: "decrypt crypto buf n0 = (res, p1, n1)"
      by (cases "decrypt crypto buf n0") auto
    with Some assms rh len pm rp l0 km have ok: "res = ERROR_SUCCESS"
      by (auto simp: packet_receive_via_ssl_def Let_def n0_def hdr_in_def split: if_splits)
    with d Some assms(1) rh len pm rp l0 km
    have "r = \<lparr>res_r = ERROR_SUCCESS,
               packet_r = Some (zero_packet\<lparr>header := hdr_in, payload := p1, payloadLength := n1\<rparr>),
               decrypted_r = [(buf, n0)]\<rparr>"
      by (simp add: packet_receive_via_ssl_def Let_def n0_def hdr_in_def)
    with rh len bl c d ok show ?thesis by (simp add: n0_def hdr_in_def)
  qed
qed

text \<open>
  One good call of \<open>SSL_write\<close> inside a writing loop: asked for the \<open>len - idx\<close>
  bytes left, it returns a positive count \<open>w\<close> no larger than that. Then adding
  \<open>w\<close> to \<open>idx\<close> does not wrap around.
\<close>

lemma write_step:
  fixes idx len :: DWORD
  assumes "idx < len" and "0 < w" and "w \<le> int (unat (len - idx))"
  shows "unat (idx + word_of_int w) = unat idx + nat w"
    and "idx + word_of_int w \<le> len"
    and "(word_of_int w :: DWORD) \<noteq> 0"
    and "nat w \<le> unat (len - idx)"
proof -
  from assms(1) have d: "unat (len - idx) = unat len - unat idx"
    by (simp add: unat_sub less_imp_le)
  from assms(1) have lt: "unat idx < unat len" by (simp add: word_less_nat_alt)
  define k where "k = nat w"
  with assms(2) have w: "w = int k" and kpos: "0 < k" by simp_all
  from assms(3) d w have kle: "k \<le> unat len - unat idx" by simp
  then have "k \<le> unat len" by simp
  then have uk: "unat (word_of_nat k :: DWORD) = k" by (rule le_unat_uoi)
  have bound: "unat len < 2 ^ LENGTH(32)" by (rule unsigned_less)
  from kle lt uk bound have "unat idx + unat (word_of_nat k :: DWORD) < 2 ^ LENGTH(32)"
    by linarith
  then have s: "unat (idx + word_of_nat k) = unat idx + unat (word_of_nat k :: DWORD)"
    by (rule unat_add_lem [THEN iffD1])
  from s uk w show "unat (idx + word_of_int w) = unat idx + nat w" by simp
  from s uk kle lt w show "idx + word_of_int w \<le> len" by (simp add: word_le_nat_alt)
  from uk kpos w show "(word_of_int w :: DWORD) \<noteq> 0" by (auto simp: unat_0_iff [symmetric] simp del: unat_0_iff)
  from kle d k_def show "nat w \<le> unat (len - idx)" by simp
qed

lemma take_drop_step: "take k (drop i xs) @ drop (i + k) xs = drop i xs"
  by (metis add.commute append_take_drop_id drop_drop)

text \<open>
  When every call of \<open>SSL_write\<close> in a writing loop is good, the loop puts on the wire
  exactly the bytes of the buffer from \<open>idx\<close> on.
\<close>

lemma write_payload_all:
  assumes "write_payload buf len idx res ws = Some (r, i, out, calls, ws')"
    and "\<forall>(num, w) \<in> set calls. 0 < w \<and> w \<le> int num"
    and "idx \<le> len"
  shows "out = drop (unat idx) (take (unat len) buf)"
  using assms
proof (induction buf len idx res ws arbitrary: r i out calls ws' rule: write_payload.induct)
  case (1 buf len idx res)
  then have "idx = len" by (auto split: if_splits)
  with 1 show ?case by (auto split: if_splits)
next
  case (2 buf len idx res w ws)
  show ?case
  proof (cases "idx < len")
    case False
    with 2(4) have "idx = len" by simp
    with 2(2) show ?thesis by simp
  next
    case True
    define num where "num = unat (len - idx)"
    define res' where "res' = (word_of_int w :: DWORD)"
    define sent where "sent = take (nat w) (take num (drop (unat idx) buf))"
    have nl: "\<not> res' < 0" by simp
    from 2(2) True nl obtain r1 i1 out1 calls1 ws1 where
      rec: "write_payload buf len (idx + res') res' ws = Some (r1, i1, out1, calls1, ws1)"
      and out: "out = sent @ out1" and calls: "calls = (num, w) # calls1"
      by (auto simp: Let_def num_def res'_def sent_def split: option.splits)
    from calls 2(3) have w: "0 < w" "w \<le> int num" and rest: "\<forall>(num, w) \<in> set calls1. 0 < w \<and> w \<le> int num"
      by auto
    note st = write_step [OF True w(1) w(2)[unfolded num_def]]
    from 2(1)[OF True num_def res'_def sent_def nl rec rest] st(2)
    have o1: "out1 = drop (unat (idx + res')) (take (unat len) buf)" by (simp add: res'_def)
    have "sent = take (nat w) (drop (unat idx) (take (unat len) buf))"
    proof -
      from True have "unat idx + num = unat len"
        by (simp add: num_def unat_sub less_imp_le word_less_nat_alt)
      then have "take num (drop (unat idx) buf) = drop (unat idx) (take (unat len) buf)"
        by (metis add.commute drop_take diff_add_inverse)
      then show ?thesis by (simp add: sent_def)
    qed
    with out o1 st(1) show ?thesis
      by (simp add: res'_def take_drop_step)
  qed
qed


lemma write_header_all:
  assumes "write_header hdr idx res ws = Some (r, i, out, calls, ws')"
    and "\<forall>(num, w) \<in> set calls. 0 < w \<and> w \<le> int num"
    and "idx \<le> 8"
  shows "out = drop (unat idx) (take 8 hdr)"
  using assms
proof (induction hdr idx res ws arbitrary: r i out calls ws' rule: write_header.induct)
  case (1 hdr idx res)
  then have "idx = 8" by (auto split: if_splits)
  with 1 show ?case by (auto split: if_splits)
next
  case (2 hdr idx res w ws)
  show ?case
  proof (cases "idx < 8")
    case False
    with 2(4) have "idx = 8" by simp
    with 2(2) show ?thesis by simp
  next
    case True
    have n8: "8 - unat idx = unat (8 - idx)"
      using True by (simp add: unat_sub less_imp_le)
    define num where "num = 8 - unat idx"
    define res' where "res' = (word_of_int w :: DWORD)"
    define sent where "sent = take (nat w) (take num (drop (unat idx) hdr))"
    have first: "(num, w) \<in> set calls"
      using 2(2) True
      by (auto simp: Let_def num_def split: option.splits if_splits)
    with 2(3) have w: "0 < w" "w \<le> int num" by auto
    note st = write_step [OF True w(1) w(2)[unfolded num_def n8]]
    from st(3) have nz: "\<not> res' \<le> 0" by (simp add: res'_def)
    from 2(2) True nz obtain r1 i1 out1 calls1 ws1 where
      rec: "write_header hdr (idx + res') res' ws = Some (r1, i1, out1, calls1, ws1)"
      and out: "out = sent @ out1" and calls: "calls = (num, w) # calls1"
      by (auto simp: Let_def num_def res'_def sent_def split: option.splits)
    from calls 2(3) have rest: "\<forall>(num, w) \<in> set calls1. 0 < w \<and> w \<le> int num" by auto
    from 2(1)[OF True num_def res'_def sent_def nz rec rest] st(2)
    have o1: "out1 = drop (unat (idx + res')) (take 8 hdr)" by (simp add: res'_def)
    have "sent = take (nat w) (drop (unat idx) (take 8 hdr))"
    proof -
      from True have "unat idx + num = 8"
        by (simp add: num_def word_less_nat_alt)
      then have "take num (drop (unat idx) hdr) = drop (unat idx) (take 8 hdr)"
        by (metis add.commute drop_take diff_add_inverse)
      then show ?thesis by (simp add: sent_def)
    qed
    with out o1 st(1) show ?thesis
      by (simp add: res'_def take_drop_step)
  qed
qed

lemma length_header_bytes: "length (header_bytes h) = 8"
  by (simp add: header_bytes_def dword_bytes_def)

lemma wire_length_frame:
  "length_f (header p) = htonl n \<Longrightarrow> wire_length (frame p) = n"
  by (simp add: wire_length_def frame_def header_bytes_def length_dword_bytes bytes_dword_bytes
      ntohl_htonl)

lemma with_request_id_cases:
  "(packet_get_tlv_string api packet0 \<noteq> None \<longrightarrow> with_request_id api rnd packet0 = packet0)
   \<and> (packet_get_tlv_string api packet0 = None \<longrightarrow>
        with_request_id api rnd packet0 = packet_add_tlv_string api packet0 (make_rid rnd))"
  by (auto simp: with_request_id_def)

text \<open>
  A transmit that returns after calls of \<open>SSL_write\<close> that were all good has put the
  frame of the outgoing packet on the wire.
\<close>

lemma frame_of_returned_transmit:
  assumes "outgoing api cipher (rand env) packet0 = Inr p"
    and "length (payload p) = unat (payloadLength p)"
    and "packet_transmit_via_ssl api cipher env packet0 = Some r"
    and "\<forall>(num, w) \<in> set (calls_t r). 0 < w \<and> w \<le> int num"
  shows "res_t r = ERROR_SUCCESS
       \<and> wire_t r = frame p
       \<and> length (wire_t r) = 8 + unat (payloadLength p)
       \<and> (cipher_for api cipher (with_request_id api (rand env) packet0) \<noteq> None
            \<longrightarrow> length_f (header p) = htonl (payloadLength p + 8))
       \<and> (length_f (header p) = htonl (payloadLength p + 8)
            \<longrightarrow> wire_length (wire_t r) = payloadLength p + 8)
       \<and> (cipher_for api cipher (with_request_id api (rand env) packet0) = None
            \<longrightarrow> p = with_request_id api (rand env) packet0)
       \<and> (packet_get_tlv_string api packet0 \<noteq> None
            \<longrightarrow> with_request_id api (rand env) packet0 = packet0)
       \<and> (packet_get_tlv_string api packet0 = None
            \<longrightarrow> with_request_id api (rand env) packet0
                  = packet_add_tlv_string api packet0 (make_rid (rand env)))"
proof -
  from assms(1,3) obtain res idx out1 calls1 ws1 where
    wh: "write_header (header_bytes (header p)) 0 ERROR_SUCCESS (write_results env)
           = Some (res, idx, out1, calls1, ws1)"
    by (auto simp: packet_transmit_via_ssl_def Let_def split: option.splits)
  have nl: "\<not> res < 0" by simp
  from assms(1,3) wh nl obtain res' idx' out2 calls2 ws2 where
    wp: "write_payload (payload p) (payloadLength p) 0 res ws1
           = Some (res', idx', out2, calls2, ws2)"
    by (auto simp: packet_transmit_via_ssl_def Let_def split: option.splits)
  have nl': "\<not> res' < 0" by simp
  from assms(1,3) wh wp nl nl'
  have r: "res_t r = ERROR_SUCCESS" "wire_t r = out1 @ out2" "calls_t r = calls1 @ calls2"
    by (auto simp: packet_transmit_via_ssl_def Let_def)
  from r(3) assms(4) have c1: "\<forall>(num, w) \<in> set calls1. 0 < w \<and> w \<le> int num"
    and c2: "\<forall>(num, w) \<in> set calls2. 0 < w \<and> w \<le> int num" by auto
  from write_header_all [OF wh c1] have o1: "out1 = header_bytes (header p)"
    by (simp add: length_header_bytes)
  from write_payload_all [OF wp c2] assms(2) have o2: "out2 = payload p" by simp
  from r(2) o1 o2 have wire: "wire_t r = frame p" by (simp add: frame_def)
  have enc: "cipher_for api cipher (with_request_id api (rand env) packet0) \<noteq> None
      \<longrightarrow> length_f (header p) = htonl (payloadLength p + 8)"
    using assms(1)
    by (auto simp: outgoing_def Let_def split: option.splits prod.splits if_splits)
  have plain: "cipher_for api cipher (with_request_id api (rand env) packet0) = None
      \<longrightarrow> p = with_request_id api (rand env) packet0"
    using assms(1) by (auto simp: outgoing_def Let_def)
  from r(1) wire assms(2) enc plain show ?thesis
    by (simp add: frame_def length_header_bytes wire_length_frame [unfolded frame_def]
        with_request_id_cases)
qed

text \<open>
  Under a script that gets the bytes left written, each writing loop returns, and all
  its calls of \<open>SSL_write\<close> were good.
\<close>

lemma write_payload_produces:
  assumes "written_by (unat (len - idx)) ws = Some ws'" and "idx \<le> len"
  shows "\<exists>r i out calls. write_payload buf len idx res ws = Some (r, i, out, calls, ws')
           \<and> (\<forall>(num, w) \<in> set calls. 0 < w \<and> w \<le> int num)"
  using assms
proof (induction ws arbitrary: idx res)
  case Nil
  then have "unat (len - idx) = 0" by (simp split: if_splits)
  then have "idx = len" by (simp add: unat_0_iff)
  with Nil show ?case by (simp split: if_splits)
next
  case (Cons w ws)
  show ?case
  proof (cases "idx < len")
    case False
    with Cons.prems(2) have e: "idx = len" by simp
    with Cons.prems(1) have "ws' = w # ws" by simp
    with e show ?thesis by simp
  next
    case True
    then have pos: "unat (len - idx) \<noteq> 0"
      by (simp add: unat_0_iff)
    with Cons.prems(1) have w: "0 < w" "w \<le> int (unat (len - idx))"
      and rest: "written_by (unat (len - idx) - nat w) ws = Some ws'"
      by (auto split: if_splits)
    note st = write_step [OF True w]
    have left: "unat (len - (idx + word_of_int w)) = unat (len - idx) - nat w"
      using st(1,2) True by (simp add: unat_sub less_imp_le)
    from Cons.IH [OF rest [folded left] st(2), of "word_of_int w"]
    obtain r i out calls where
      rec: "write_payload buf len (idx + word_of_int w) (word_of_int w) ws
              = Some (r, i, out, calls, ws')"
      and good: "\<forall>(num, w) \<in> set calls. 0 < w \<and> w \<le> int num" by blast
    from True rec good w show ?thesis by (simp add: Let_def)
  qed
qed

lemma write_header_produces:
  assumes "written_by (8 - unat idx) ws = Some ws'" and "idx \<le> 8"
  shows "\<exists>r i out calls. write_header hdr idx res ws = Some (r, i, out, calls, ws')
           \<and> (\<forall>(num, w) \<in> set calls. 0 < w \<and> w \<le> int num)"
  using assms
proof (induction ws arbitrary: idx res)
  case Nil
  then have "8 - unat idx = 0" by (simp split: if_splits)
  with Nil.prems(2) have "idx = 8" by (simp add: word_le_nat_alt word_unat_eq_iff)
  with Nil show ?case by (simp split: if_splits)
next
  case (Cons w ws)
  show ?case
  proof (cases "idx < 8")
    case False
    with Cons.prems(2) have e: "idx = 8" by simp
    with Cons.prems(1) have "ws' = w # ws" by simp
    with e show ?thesis by simp
  next
    case True
    have n8: "8 - unat idx = unat (8 - idx)"
      using True by (simp add: unat_sub less_imp_le)
    from True have pos: "unat (8 - idx) \<noteq> 0"
      by (simp add: unat_0_iff)
    with Cons.prems(1) n8 have w: "0 < w" "w \<le> int (unat (8 - idx))"
      and rest: "written_by (unat (8 - idx) - nat w) ws = Some ws'"
      by (auto split: if_splits)
    note st = write_step [OF True w]
    have left: "8 - unat (idx + word_of_int w) = unat (8 - idx) - nat w"
      using st(1) n8 by simp
    from Cons.IH [OF rest [folded left] st(2), of "word_of_int w"]
    obtain r i out calls where
      rec: "write_header hdr (idx + word_of_int w) (word_of_int w) ws
              = Some (r, i, out, calls, ws')"
      and good: "\<forall>(num, w) \<in> set calls. 0 < w \<and> w \<le> int num" by blast
    from st(3) have nz: "\<not> (word_of_int w :: DWORD) \<le> 0" by simp
    from True rec good w nz n8 show ?thesis by (simp add: Let_def)
  qed
qed

text \<open>
  C1 (amended). Take a transmit whose packet, as it is when the writing starts (the
  request id added if the packet had none, the payload encrypted if a cipher is active
  and the type is not plaintext), has a payload buffer of \<open>payloadLength\<close> bytes, and
  in which the calls of \<open>SSL_write\<close> get the 8 header bytes and then the
  \<open>payloadLength\<close> payload bytes written: each call returns a positive count no
  larger than the count requested. Then the function returns, its status is
  \<open>ERROR_SUCCESS\<close>, and the wire carries exactly the 8 header bytes followed by the
  \<open>payloadLength\<close> payload bytes. When a cipher is active and the type is not
  plaintext, the header's length field is \<open>htonl(payloadLength + 8)\<close> for the
  encrypted length; and whenever the header's length field is
  \<open>htonl(payloadLength + 8)\<close>, the length field on the wire, in host order, is 8 plus
  the number of payload bytes on the wire. Without encryption the packet written is the
  caller's own packet if it already holds a request id, and otherwise the caller's
  packet with the generated request id attached.
\<close>

theorem transmit_frame:
  assumes "outgoing api cipher (rand env) packet0 = Inr p"
    and "length (payload p) = unat (payloadLength p)"
    and "written_by 8 (write_results env) = Some ws1"
    and "written_by (unat (payloadLength p)) ws1 = Some ws2"
  shows "\<exists>r. packet_transmit_via_ssl api cipher env packet0 = Some r
       \<and> res_t r = ERROR_SUCCESS
       \<and> wire_t r = frame p
       \<and> length (wire_t r) = 8 + unat (payloadLength p)
       \<and> (cipher_for api cipher (with_request_id api (rand env) packet0) \<noteq> None
            \<longrightarrow> length_f (header p) = htonl (payloadLength p + 8))
       \<and> (length_f (header p) = htonl (payloadLength p + 8)
            \<longrightarrow> wire_length (wire_t r) = payloadLength p + 8)
       \<and> (cipher_for api cipher (with_request_id api (rand env) packet0) = None
            \<longrightarrow> p = with_request_id api (rand env) packet0)
       \<and> (packet_get_tlv_string api packet0 \<noteq> None
            \<longrightarrow> with_request_id api (rand env) packet0 = packet0)
       \<and> (packet_get_tlv_string api packet0 = None
            \<longrightarrow> with_request_id api (rand env) packet0
                  = packet_add_tlv_string api packet0 (make_rid (rand env)))"
proof -
  from write_header_produces [of 0 "write_results env" ws1 "header_bytes (header p)"
      ERROR_SUCCESS] assms(3)
  obtain res idx out1 calls1 where
    wh: "write_header (header_bytes (header p)) 0 ERROR_SUCCESS (write_results env)
           = Some (res, idx, out1, calls1, ws1)"
    and c1: "\<forall>(num, w) \<in> set calls1. 0 < w \<and> w \<le> int num"
    by auto
  from write_payload_produces [of "payloadLength p" 0 ws1 ws2 "payload p" res] assms(4)
  obtain res' idx' out2 calls2 where
    wp: "write_payload (payload p) (payloadLength p) 0 res ws1
           = Some (res', idx', out2, calls2, ws2)"
    and c2: "\<forall>(num, w) \<in> set calls2. 0 < w \<and> w \<le> int num"
    by auto
  have nl: "\<not> res < 0" "\<not> res' < 0" by simp_all
  from assms(1) wh wp nl obtain r where
    r: "packet_transmit_via_ssl api cipher env packet0 = Some r"
    and calls: "calls_t r = calls1 @ calls2"
    by (simp add: packet_transmit_via_ssl_def Let_def)
  from calls c1 c2 have good: "\<forall>(num, w) \<in> set (calls_t r). 0 < w \<and> w \<le> int num"
    by auto
  note fr = frame_of_returned_transmit [OF assms(1,2) r good]
  from conjI [OF r fr] show ?thesis by (rule exI)
qed

text \<open>Evaluation of the codec on the concrete packets.\<close>

lemma make_rid_zero: "make_rid (\<lambda>i. 0) = replicate 31 0x21"
  by (simp add: make_rid_def map_replicate_const)

lemma find_tlv_ping: "find_tlv ty [0x70, 0x69, 0x6E, 0x67] = None"
  by (simp add: find_tlv.simps)

lemma byte_order_values:
  "htonl 40 = 0x28000000" "htonl 0x10002 = 0x02000100" "ntohl 0x0C000000 = 12"
  "htonl 52 = 0x34000000" "htonl 53 = 0x35000000"
  by (simp_all add: htonl_def ntohl_def dword_bytes_def bytes_dword_def)

lemma with_request_id_ping:
  "with_request_id core_api (\<lambda>i. 0) (ping_packet ty) = with_id (ping_packet ty)"
  by (simp add: with_request_id_def core_api_def ping_packet_def find_tlv_ping make_rid_zero
      add_tlv_def byte_order_values TLV_TYPE_REQUEST_ID_def with_id_def rid_tlv_def
      dword_bytes_def)

lemma outgoing_ping: "outgoing core_api None (\<lambda>i. 0) ping = Inr (with_id ping)"
  by (simp add: outgoing_def ping_def with_request_id_ping cipher_for_def)

lemma outgoing_ask: "outgoing core_api (Some tag_cipher) (\<lambda>i. 0) ask = Inr ask_encrypted"
  by (simp add: outgoing_def ask_def with_request_id_ping cipher_for_def)
     (simp add: core_api_def with_id_def ask_def ping_packet_def tag_cipher_def
      ask_encrypted_def ERROR_SUCCESS_def byte_order_values ntohl_def dword_bytes_def
      bytes_dword_def)

lemma write_header_once:
  "length hdr = 8 \<Longrightarrow> write_header hdr 0 r (8 # ws) = Some (8, 8, hdr, [(8, 8)], ws)"
  by (cases ws) simp_all

lemma write_header_twice:
  "length hdr = 8 \<Longrightarrow>
   write_header hdr 0 r (3 # 5 # ws) = Some (5, 8, hdr, [(8, 3), (5, 5)], ws)"
  by (cases ws) (simp_all add: take_drop_step [where i = 0, simplified])

lemma sizes_with_id:
  "length (payload (with_id ping)) = 44" "payloadLength (with_id ping) = 44"
  "length (payload ask_encrypted) = 45" "payloadLength ask_encrypted = 45"
  by (simp_all add: with_id_def ping_def ask_def ping_packet_def rid_tlv_def ask_encrypted_def)

lemma write_payload_44:
  "length buf = 44 \<Longrightarrow> write_payload buf 44 0 r [44] = Some (44, 44, buf, [(44, 44)], [])"
  by simp

lemma write_payload_45:
  "length buf = 45 \<Longrightarrow> write_payload buf 45 0 r [45] = Some (45, 45, buf, [(45, 45)], [])"
  by simp

lemma transmit_ping_pieces:
  "packet_transmit_via_ssl core_api None (send_env [3, 5, 44]) ping
     = Some \<lparr>res_t = ERROR_SUCCESS, wire_t = frame (with_id ping),
              calls_t = [(8, 3), (5, 5), (44, 44)], registered_t = None\<rparr>"
  by (simp add: packet_transmit_via_ssl_def send_env_def outgoing_ping length_header_bytes
      write_header_twice write_payload_44 sizes_with_id frame_def
      del: write_header.simps write_payload.simps)

lemma transmit_ask_encrypted:
  "packet_transmit_via_ssl core_api (Some tag_cipher) (send_env [8, 45]) ask
     = Some \<lparr>res_t = ERROR_SUCCESS, wire_t = frame ask_encrypted,
              calls_t = [(8, 8), (45, 45)], registered_t = None\<rparr>"
  by (simp add: packet_transmit_via_ssl_def send_env_def outgoing_ask length_header_bytes
      write_header_once write_payload_45 sizes_with_id frame_def
      del: write_header.simps write_payload.simps)

lemma rid_tlv_fields:
  "wire_length rid_tlv = 40" "wire_length (drop 4 rid_tlv) = 0x10002" "length rid_tlv = 40"
  by (simp_all add: rid_tlv_def wire_length_def ntohl_def bytes_dword_def dword_bytes_def)

lemma find_tlv_rid: "find_tlv TLV_TYPE_REQUEST_ID rid_tlv = Some (replicate 31 0x21 @ [0])"
  by (subst find_tlv.simps)
     (simp add: rid_tlv_fields TLV_TYPE_REQUEST_ID_def, simp add: rid_tlv_def)

lemma outgoing_id_only: "outgoing core_api None (\<lambda>i. 0) id_only = Inr id_only"
  by (simp add: outgoing_def with_request_id_def cipher_for_def)
     (simp add: core_api_def id_only_def find_tlv_rid)

lemma sizes_id_only: "length (payload id_only) = 40" "payloadLength id_only = 40"
  by (simp_all add: id_only_def rid_tlv_def)

lemma write_payload_40:
  "length buf = 40 \<Longrightarrow> write_payload buf 40 0 r [40] = Some (40, 40, buf, [(40, 40)], [])"
  by simp

lemma transmit_id_only:
  "packet_transmit_via_ssl core_api None (send_env [8, 40]) id_only
     = Some \<lparr>res_t = ERROR_SUCCESS, wire_t = frame id_only,
              calls_t = [(8, 8), (40, 40)], registered_t = None\<rparr>"
  by (simp add: packet_transmit_via_ssl_def send_env_def outgoing_id_only length_header_bytes
      write_header_once write_payload_40 sizes_id_only frame_def
      del: write_header.simps write_payload.simps)

text \<open>
  When both calls of \<open>SSL_write\<close> fail with -1, nothing goes on the wire and the
  function still returns \<open>ERROR_SUCCESS\<close>: \<open>res\<close> is unsigned, so the tests
  \<open>res < 0\<close> hold for no value, and adding \<open>res\<close> to \<open>idx\<close> ends each loop.
\<close>

lemma transmit_write_errors_unnoticed:
  "packet_transmit_via_ssl core_api None (send_env [-1, -1]) ping
     = Some \<lparr>res_t = ERROR_SUCCESS, wire_t = [], calls_t = [(8, -1), (44, -1)],
              registered_t = None\<rparr>"
  by (simp add: packet_transmit_via_ssl_def send_env_def outgoing_ping sizes_with_id
      ERROR_SUCCESS_def Let_def)

text \<open>
  The ping packet sent in pieces (3 and 5 header bytes, then the payload) with no
  cipher, the request packet sent whole with the cipher, and the packet that already
  holds a request id sent as it is: each time the wire carries the frame of the packet
  as it stood when the writing started, 52, 53 and 48 bytes long, and the length field
  on the wire says so.
\<close>

theorem transmit_frame_witness:
  "packet_transmit_via_ssl core_api None (send_env [3, 5, 44]) ping
     = Some \<lparr>res_t = ERROR_SUCCESS, wire_t = frame (with_id ping),
              calls_t = [(8, 3), (5, 5), (44, 44)], registered_t = None\<rparr>
   \<and> length (frame (with_id ping)) = 52 \<and> wire_length (frame (with_id ping)) = 52
   \<and> packet_transmit_via_ssl core_api (Some tag_cipher) (send_env [8, 45]) ask
     = Some \<lparr>res_t = ERROR_SUCCESS, wire_t = frame ask_encrypted,
              calls_t = [(8, 8), (45, 45)], registered_t = None\<rparr>
   \<and> length (frame ask_encrypted) = 53 \<and> wire_length (frame ask_encrypted) = 53
   \<and> packet_transmit_via_ssl core_api None (send_env [8, 40]) id_only
     = Some \<lparr>res_t = ERROR_SUCCESS, wire_t = frame id_only,
              calls_t = [(8, 8), (40, 40)], registered_t = None\<rparr>
   \<and> length (frame id_only) = 48 \<and> wire_length (frame id_only) = 48"
proof -
  have a1: "outgoing core_api None (rand (send_env [3, 5, 44])) ping = Inr (with_id ping)"
    by (simp add: send_env_def outgoing_ping)
  have a2: "length (payload (with_id ping)) = unat (payloadLength (with_id ping))"
    by (simp add: sizes_with_id)
  have a3: "written_by 8 (write_results (send_env [3, 5, 44])) = Some [44]"
    by (simp add: send_env_def)
  have a4: "written_by (unat (payloadLength (with_id ping))) [44] = Some []"
    by (simp add: sizes_with_id)
  have a5: "length_f (header (with_id ping)) = htonl (payloadLength (with_id ping) + 8)"
    by (simp add: with_id_def byte_order_values)
  have a6: "packet_get_tlv_string core_api ping = None"
    by (simp add: core_api_def ping_def ping_packet_def find_tlv_ping)
  have b1: "outgoing core_api (Some tag_cipher) (rand (send_env [8, 45])) ask = Inr ask_encrypted"
    by (simp add: send_env_def outgoing_ask)
  have b2: "length (payload ask_encrypted) = unat (payloadLength ask_encrypted)"
    by (simp add: sizes_with_id)
  have b3: "written_by 8 (write_results (send_env [8, 45])) = Some [45]"
    by (simp add: send_env_def)
  have b4: "written_by (unat (payloadLength ask_encrypted)) [45] = Some []"
    by (simp add: sizes_with_id)
  have b5: "cipher_for core_api (Some tag_cipher)
              (with_request_id core_api (rand (send_env [8, 45])) ask) \<noteq> None"
    by (simp add: send_env_def ask_def with_request_id_ping cipher_for_def)
       (simp add: core_api_def with_id_def ping_packet_def ntohl_def dword_bytes_def
        bytes_dword_def)
  have c1: "outgoing core_api None (rand (send_env [8, 40])) id_only = Inr id_only"
    by (simp add: send_env_def outgoing_id_only)
  have c2: "length (payload id_only) = unat (payloadLength id_only)"
    by (simp add: sizes_id_only)
  have c3: "written_by 8 (write_results (send_env [8, 40])) = Some [40]"
    by (simp add: send_env_def)
  have c4: "written_by (unat (payloadLength id_only)) [40] = Some []"
    by (simp add: sizes_id_only)
  have c5: "length_f (header id_only) = htonl (payloadLength id_only + 8)"
    by (simp add: id_only_def htonl_def dword_bytes_def bytes_dword_def)
  have c6: "packet_get_tlv_string core_api id_only \<noteq> None"
    by (simp add: core_api_def id_only_def find_tlv_rid)
  from transmit_frame [OF a1 a2 a3 a4] a5 a6
    transmit_frame [OF b1 b2 b3 b4] b5
    transmit_frame [OF c1 c2 c3 c4] c5 c6
  show ?thesis
    by (auto simp: transmit_ping_pieces transmit_ask_encrypted transmit_id_only sizes_with_id
        sizes_id_only)
qed

text \<open>
  C1, as stated, fails: a plaintext-request packet whose payload is the four bytes
  \<open>ping\<close> holds no request id, so the transmitter attaches one before writing. With
  every write complete, 52 bytes go on the wire, not 12: the header
  \<open>00 00 00 34 00 00 00 0A\<close>, then \<open>ping\<close>, then the 40 bytes of the request-id
  record.
\<close>

theorem transmit_ping_counterexample:
  "packet_transmit_via_ssl core_api None (send_env [8, 44]) ping
     = Some \<lparr>res_t = ERROR_SUCCESS,
              wire_t = [0, 0, 0, 0x34, 0, 0, 0, 0x0A, 0x70, 0x69, 0x6E, 0x67] @ rid_tlv,
              calls_t = [(8, 8), (44, 44)], registered_t = None\<rparr>
   \<and> length ([0, 0, 0, 0x34, 0, 0, 0, 0x0A, 0x70, 0x69, 0x6E, 0x67 :: BYTE] @ rid_tlv) = 52
   \<and> payload ping = [0x70, 0x69, 0x6E, 0x67] \<and> payloadLength ping = 4
   \<and> packet_get_type core_api ping = PLAIN_REQUEST core_api"
proof -
  have "packet_transmit_via_ssl core_api None (send_env [8, 44]) ping
     = Some \<lparr>res_t = ERROR_SUCCESS, wire_t = frame (with_id ping),
              calls_t = [(8, 8), (44, 44)], registered_t = None\<rparr>"
    by (simp add: packet_transmit_via_ssl_def send_env_def outgoing_ping length_header_bytes
        write_header_once write_payload_44 sizes_with_id frame_def
        del: write_header.simps write_payload.simps)
  moreover have "frame (with_id ping)
      = [0, 0, 0, 0x34, 0, 0, 0, 0x0A, 0x70, 0x69, 0x6E, 0x67] @ rid_tlv"
    by (simp add: frame_def header_bytes_def dword_bytes_def with_id_def ping_def
        ping_packet_def)
  moreover have "packet_get_type core_api ping = PLAIN_REQUEST core_api"
    by (simp add: core_api_def ping_def ping_packet_def ntohl_def dword_bytes_def
        bytes_dword_def)
  ultimately show ?thesis
    by (simp add: rid_tlv_def ping_def ping_packet_def)
qed

text \<open>
  The frame of \<open>ping_reads\<close> received without a cipher: the reads are put together,
  the would-block failure is retried, and the packet has a payload of 4 = 12 - 8 bytes.
\<close>

lemma receive_ping_plain:
  "packet_receive_via_ssl core_api None (ping_reads 10)
     = Some \<lparr>res_r = ERROR_SUCCESS, packet_r = Some (ping_packet 0x0A000000),
              decrypted_r = []\<rparr>"
  by (simp add: packet_receive_via_ssl_def ping_reads_def ping_packet_def SSL_read_def
      WSAEWOULDBLOCK_def ERROR_SUCCESS_def ERROR_NOT_FOUND_def cipher_for_def zero_packet_def
      bytes_dword_def ntohl_def dword_bytes_def)

theorem receive_success_payload_witness:
  "packet_receive_via_ssl core_api None (ping_reads 10)
     = Some \<lparr>res_r = ERROR_SUCCESS, packet_r = Some (ping_packet 0x0A000000),
              decrypted_r = []\<rparr>
   \<and> payloadLength (ping_packet 0x0A000000)
       = ntohl (length_f (header (ping_packet 0x0A000000))) - 8
   \<and> length (payload (ping_packet 0x0A000000)) = unat (payloadLength (ping_packet 0x0A000000))
   \<and> payloadLength (ping_packet 0x0A000000) = 4"
proof -
  have ok: "res_r \<lparr>res_r = ERROR_SUCCESS, packet_r = Some (ping_packet 0x0A000000),
              decrypted_r = []\<rparr> = ERROR_SUCCESS" by simp
  from receive_success_payload [OF receive_ping_plain ok]
  show ?thesis by (auto simp: receive_ping_plain ping_packet_def)
qed

text \<open>
  C8, as stated, fails: with a cipher established, the payload handed to the caller is
  what \<open>decrypt\<close> gave back. Here the frame says 12, so 4 payload bytes are read, and
  the packet delivered with \<open>ERROR_SUCCESS\<close> has a payload of 3 bytes.
\<close>

theorem receive_decrypted_length_counterexample:
  "packet_receive_via_ssl core_api (Some tag_cipher) (ping_reads 0)
     = Some \<lparr>res_r = ERROR_SUCCESS,
              packet_r = Some \<lparr>header = \<lparr>length_f = 0x0C000000, type_f = 0\<rparr>,
                               payload = [0x25, 0x3C, 0x3B], payloadLength = 3\<rparr>,
              decrypted_r = [([0x70, 0x69, 0x6E, 0x67], 4)]\<rparr>
   \<and> ntohl 0x0C000000 - 8 = (4 :: DWORD) \<and> (3 :: DWORD) \<noteq> 4"
  by (simp add: packet_receive_via_ssl_def ping_reads_def SSL_read_def
      WSAEWOULDBLOCK_def ERROR_SUCCESS_def ERROR_NOT_FOUND_def cipher_for_def zero_packet_def
      bytes_dword_def ntohl_def dword_bytes_def core_api_def tag_cipher_def)

text \<open>
  C2. With a cipher established, a frame whose type on the wire is the plaintext-request
  type is decrypted all the same: the type test is made on the packet structure that
  has just been zeroed, before the header read from the wire is copied into it.
\<close>

theorem receive_plain_request_is_decrypted:
  "packet_receive_via_ssl core_api (Some tag_cipher) (ping_reads 10)
     = Some \<lparr>res_r = ERROR_SUCCESS,
              packet_r = Some \<lparr>header = \<lparr>length_f = 0x0C000000, type_f = 0x0A000000\<rparr>,
                               payload = [0x25, 0x3C, 0x3B], payloadLength = 3\<rparr>,
              decrypted_r = [([0x70, 0x69, 0x6E, 0x67], 4)]\<rparr>
   \<and> packet_get_type core_api \<lparr>header = \<lparr>length_f = 0x0C000000, type_f = 0x0A000000\<rparr>,
                               payload = [0x25, 0x3C, 0x3B], payloadLength = 3\<rparr>
       = PLAIN_REQUEST core_api"
  by (simp add: packet_receive_via_ssl_def ping_reads_def SSL_read_def
      WSAEWOULDBLOCK_def ERROR_SUCCESS_def ERROR_NOT_FOUND_def cipher_for_def zero_packet_def
      bytes_dword_def ntohl_def dword_bytes_def core_api_def tag_cipher_def)

text \<open>
  Whether \<open>decrypt\<close> is called never depends on the header received: the test looks
  at the zeroed packet only.
\<close>

lemma receive_cipher_test_ignores_wire_type:
  assumes "packet_receive_via_ssl api cipher env = Some r" and "res_r r = ERROR_SUCCESS"
  shows "(decrypted_r r \<noteq> []) = (cipher_for api cipher zero_packet \<noteq> None)"
  using assms
  by (auto simp: packet_receive_via_ssl_def Let_def failed_with_def ERROR_SUCCESS_def
      ERROR_NOT_FOUND_def ERROR_NOT_ENOUGH_MEMORY_def
      split: option.splits if_splits prod.splits
      dest!: read_header_result read_payload_result)

end
